theory Spec2Isabelle
  imports Main
begin

section \<open>HTTP exceptions\<close>

text \<open>
  The NestJS exception classes the services and the pipe throw, each with the message it
  is constructed with. A \<^verbatim>\<open>throw\<close> of the source is the \<open>Inl\<close> branch of
  a result of type \<open>http_exception + 'a\<close>.

  Strings are \<open>string\<close>: one \<open>char\<close> stands for one code unit of the JavaScript
  string, so \<open>length\<close> is the \<^verbatim>\<open>.length\<close> of the source.
\<close>

datatype http_exception =
    ConflictException string
  | UnauthorizedException string
  | NotFoundException string
  | BadRequestException string

section \<open>UpperCasePipe (pipes/UpperCase.pipe.ts)\<close>

text \<open>
  The pipe receives \<^verbatim>\<open>value: any\<close>, so the model has a type of JavaScript values.
  Objects are the plain objects and arrays of a parsed request body: an object is the
  list of its own enumerable properties in enumeration order. The payload of a number is
  never inspected by the pipe.
\<close>

datatype js_value =
    JUndefined
  | JNull
  | JBoolean bool
  | JNumber int
  | JString string
  | JFunction
  | JArray "js_value list"
  | JObject "(string \<times> js_value) list"

text \<open>The \<^verbatim>\<open>typeof\<close> operator; \<^verbatim>\<open>typeof null\<close> is \<^verbatim>\<open>'object'\<close>.\<close>

fun typeof :: "js_value \<Rightarrow> string" where
  "typeof JUndefined = ''undefined''"
| "typeof JNull = ''object''"
| "typeof (JBoolean b) = ''boolean''"
| "typeof (JNumber n) = ''number''"
| "typeof (JString s) = ''string''"
| "typeof JFunction = ''function''"
| "typeof (JArray vs) = ''object''"
| "typeof (JObject kvs) = ''object''"

text \<open>
  The body of the \<^verbatim>\<open>for (const key in value)\<close> loop, for one property:
  \<^verbatim>\<open>if (typeof value[key] === 'string') value[key] = value[key].toUpperCase()\<close>.
  \<^verbatim>\<open>String.prototype.toUpperCase\<close> is a built-in and is a parameter.
\<close>

definition upper_property :: "(string \<Rightarrow> string) \<Rightarrow> js_value \<Rightarrow> js_value" where
  "upper_property toUpperCase v =
     (if typeof v = ''string''
      then (case v of JString s \<Rightarrow> JString (toUpperCase s) | _ \<Rightarrow> v)
      else v)"

text \<open>
  The whole loop. An array enumerates its indices, an object its keys;
  \<^verbatim>\<open>for (const key in null)\<close> runs no iteration and does not throw.
\<close>

fun for_in_upper :: "(string \<Rightarrow> string) \<Rightarrow> js_value \<Rightarrow> js_value" where
  "for_in_upper toUpperCase (JObject kvs) =
     JObject (map (\<lambda>(k, v). (k, upper_property toUpperCase v)) kvs)"
| "for_in_upper toUpperCase (JArray vs) = JArray (map (upper_property toUpperCase) vs)"
| "for_in_upper toUpperCase v = v"

text \<open>
  \<^verbatim>\<open>transform(value)\<close>. The guard of the first branch is
  \<^verbatim>\<open>typeof value === 'object' && typeof value !== null\<close>: its second conjunct
  compares the string \<^verbatim>\<open>typeof value\<close> with \<^verbatim>\<open>null\<close>.
\<close>

definition transform :: "(string \<Rightarrow> string) \<Rightarrow> js_value \<Rightarrow> http_exception + js_value" where
  "transform toUpperCase v =
     (if typeof v = ''object'' \<and> JString (typeof v) \<noteq> JNull then
        Inr (for_in_upper toUpperCase v)
      else if typeof v = ''string'' then
        (case v of JString s \<Rightarrow> Inr (JString (toUpperCase s)) | _ \<Rightarrow> Inr v)
      else
        Inl (BadRequestException ''Validation failed: value must be string or object''))"

text \<open>An upper-casing of the ASCII letters, to run the pipe on concrete values.\<close>

definition ascii_upper_char :: "char \<Rightarrow> char" where
  "ascii_upper_char c =
     (case map_of (zip ''abcdefghijklmnopqrstuvwxyz'' ''ABCDEFGHIJKLMNOPQRSTUVWXYZ'') c of
        Some u \<Rightarrow> u
      | None \<Rightarrow> c)"

definition ascii_upper :: "string \<Rightarrow> string" where
  "ascii_upper s = map ascii_upper_char s"

section \<open>TasksService (tasks/tasks.service.ts)\<close>

text \<open>
  Modelled from the spec: the entity class \<^verbatim>\<open>Task\<close> (tasks/task.entity.ts) is not
  among the sources. Its fields are those the spec lists for a Task and the ones the
  service assigns: id, title, description, completed.
\<close>

record task =
  task_id :: string
  title :: string
  description :: string
  completed :: bool

text \<open>
  The table behind \<^verbatim>\<open>Repository<Task>\<close> is the list of its rows. What the repository
  does is TypeORM's: \<^verbatim>\<open>findOne({ where: { id } })\<close> is the first row with that id,
  \<^verbatim>\<open>save(task)\<close> replaces the row with the task's primary key (or inserts it), and
  \<^verbatim>\<open>delete(id)\<close> removes the rows with that primary key and resolves to a
  \<^verbatim>\<open>DeleteResult\<close> carrying the number of rows affected. \<^verbatim>\<open>delete\<close> rejects an
  empty criteria, which for a string id is the empty string, with a \<^verbatim>\<open>TypeORMError\<close>
  before it touches the table.
\<close>

datatype typeorm_error = TypeORMError string

record delete_result =
  affected :: nat

definition tasksRepo_findOne :: "string \<Rightarrow> task list \<Rightarrow> task option" where
  "tasksRepo_findOne i tasks = find (\<lambda>t. task_id t = i) tasks"

definition tasksRepo_save :: "task \<Rightarrow> task list \<Rightarrow> task \<times> task list" where
  "tasksRepo_save t tasks =
     (t, if task_id t \<in> set (map task_id tasks)
         then map (\<lambda>x. if task_id x = task_id t then t else x) tasks
         else tasks @ [t])"

definition tasksRepo_delete :: "string \<Rightarrow> task list \<Rightarrow> (typeorm_error + delete_result) \<times> task list" where
  "tasksRepo_delete i tasks =
     (if i = [] then
        (Inl (TypeORMError ''Empty criteria(s) are not allowed for the delete method.''), tasks)
      else
        (Inr \<lparr>affected = length (filter (\<lambda>t. task_id t = i) tasks)\<rparr>,
         filter (\<lambda>t. task_id t \<noteq> i) tasks))"

text \<open>
  \<^verbatim>\<open>async getTaskById(id)\<close> returns the promise of \<^verbatim>\<open>findOne\<close>, which the caller
  awaits.
\<close>

definition getTaskById :: "string \<Rightarrow> task list \<Rightarrow> task option" where
  "getTaskById i tasks = tasksRepo_findOne i tasks"

text \<open>
  The operator \<^verbatim>\<open>??\<close>: the left operand unless it is \<^verbatim>\<open>null\<close> or
  \<^verbatim>\<open>undefined\<close> (\<open>None\<close>).
\<close>

definition nullish_coalesce :: "'a option \<Rightarrow> 'a \<Rightarrow> 'a" where
  "nullish_coalesce x d = (case x of Some v \<Rightarrow> v | None \<Rightarrow> d)"

text \<open>
  \<^verbatim>\<open>async updateTask(id, title, description, completed)\<close>: \<^verbatim>\<open>null\<close> when no task has
  the id; otherwise the three assignments, in the order of the source, and \<^verbatim>\<open>save\<close>.
\<close>

definition updateTask ::
  "string \<Rightarrow> string option \<Rightarrow> string option \<Rightarrow> bool option \<Rightarrow> task list
   \<Rightarrow> task option \<times> task list" where
  "updateTask i title' description' completed' tasks =
     (case getTaskById i tasks of
        None \<Rightarrow> (None, tasks)
      | Some task \<Rightarrow>
          (let task1 = task\<lparr>title := nullish_coalesce title' (title task)\<rparr>;
               task2 = task1\<lparr>completed := nullish_coalesce completed' (completed task1)\<rparr>;
               task3 = task2\<lparr>description := nullish_coalesce description' (description task2)\<rparr>;
               (saved, tasks') = tasksRepo_save task3 tasks
           in (Some saved, tasks')))"

text \<open>
  \<^verbatim>\<open>async deleteTask(id) { await this.tasksRepo.delete(id); return "Task Deleted Successfully!" }\<close>:
  a rejection of the awaited promise is the rejection of \<open>deleteTask\<close>; the
  \<^verbatim>\<open>DeleteResult\<close> is dropped.
\<close>

definition deleteTask :: "string \<Rightarrow> task list \<Rightarrow> (typeorm_error + string) \<times> task list" where
  "deleteTask i tasks =
     (case tasksRepo_delete i tasks of
        (Inl e, tasks') \<Rightarrow> (Inl e, tasks')
      | (Inr res, tasks') \<Rightarrow> (Inr ''Task Deleted Successfully!'', tasks'))"

section \<open>AuthService (auth/auth.service.ts)\<close>

subsection \<open>The User entity and the user repository\<close>

text \<open>
  Modelled from the spec: the entity class \<^verbatim>\<open>User\<close> (auth/users.entity.ts) is not
  among the sources. Its columns are the ones the spec lists for a User row and the ones
  \<^verbatim>\<open>auth.service.ts\<close> reads and writes: id, username, name, email, password. The
  primary key is absent (\<open>None\<close>) on an entity that \<^verbatim>\<open>create\<close> has built and
  that has not been saved yet.
\<close>

record user =
  user_id :: "string option"
  user_username :: string
  user_name :: string
  user_email :: string
  user_password :: string

text \<open>The claims \<^verbatim>\<open>{ sub, username }\<close> that \<open>login\<close> signs.\<close>

record jwt_payload =
  sub :: "string option"
  payload_username :: string

text \<open>
  The libraries the service calls are parameters of the model, collected in one record:
  \<^item> \<^verbatim>\<open>bcrypt.hash(data, saltRounds)\<close>, with the salt it draws as a third argument;
  \<^item> \<^verbatim>\<open>bcrypt.compare(data, encrypted)\<close>;
  \<^item> \<^verbatim>\<open>jwtService.sign(payload)\<close>;
  \<^item> the primary key the database generates for an inserted row.
  They are total: a rejection of one of these promises by the library itself (a lost
  database connection, a failing hash) is not a branch of the service's code.
\<close>

record env =
  bcrypt_hash :: "string \<Rightarrow> nat \<Rightarrow> string \<Rightarrow> string"
  bcrypt_compare :: "string \<Rightarrow> string \<Rightarrow> bool"
  jwt_sign :: "jwt_payload \<Rightarrow> string"
  new_uuid :: "user list \<Rightarrow> string"

text \<open>
  The repository \<^verbatim>\<open>Repository<User>\<close> is the list of the table's rows, in the order
  the database returns them, together with the log of the calls made on the repository
  (what the mocks of \<^verbatim>\<open>auth.service.spec.ts\<close> record).
\<close>

datatype find_where = WhereEmail string | WhereUsername string

datatype repo_call = FindOne find_where | Create user | Save user

fun is_write :: "repo_call \<Rightarrow> bool" where
  "is_write (FindOne w) = False"
| "is_write (Create u) = True"
| "is_write (Save u) = True"

record user_repo =
  user_rows :: "user list"
  repo_calls :: "repo_call list"

fun matches :: "find_where \<Rightarrow> user \<Rightarrow> bool" where
  "matches (WhereEmail e) u = (user_email u = e)"
| "matches (WhereUsername n) u = (user_username u = n)"

text \<open>\<^verbatim>\<open>findOne({ where })\<close>: the first matching row, or \<^verbatim>\<open>null\<close>.\<close>

definition userRepo_findOne :: "find_where \<Rightarrow> user_repo \<Rightarrow> user option \<times> user_repo" where
  "userRepo_findOne w r =
     (find (matches w) (user_rows r), r\<lparr>repo_calls := repo_calls r @ [FindOne w]\<rparr>)"

text \<open>\<^verbatim>\<open>create(entityLike)\<close> builds the entity in memory; the table is not touched.\<close>

definition userRepo_create :: "user \<Rightarrow> user_repo \<Rightarrow> user \<times> user_repo" where
  "userRepo_create u r = (u, r\<lparr>repo_calls := repo_calls r @ [Create u]\<rparr>)"

text \<open>
  \<^verbatim>\<open>save(entity)\<close>: an entity without primary key is inserted under a generated key;
  an entity whose primary key is in the table replaces that row; otherwise it is inserted.
\<close>

definition userRepo_save :: "env \<Rightarrow> user \<Rightarrow> user_repo \<Rightarrow> user \<times> user_repo" where
  "userRepo_save env u r =
     (case user_id u of
        None \<Rightarrow>
          (let u' = u\<lparr>user_id := Some (new_uuid env (user_rows r))\<rparr>
           in (u', r\<lparr>user_rows := user_rows r @ [u'], repo_calls := repo_calls r @ [Save u]\<rparr>))
      | Some i \<Rightarrow>
          (if Some i \<in> set (map user_id (user_rows r))
           then (u, r\<lparr>user_rows := map (\<lambda>x. if user_id x = Some i then u else x) (user_rows r),
                      repo_calls := repo_calls r @ [Save u]\<rparr>)
           else (u, r\<lparr>user_rows := user_rows r @ [u], repo_calls := repo_calls r @ [Save u]\<rparr>)))"

subsection \<open>register\<close>

record user_view =
  view_id :: "string option"
  view_username :: string
  view_name :: string
  view_email :: string

record register_result =
  register_message :: string
  register_user :: user_view

text \<open>
  \<^verbatim>\<open>async register(email, name, username, password)\<close>. The result pairs what the
  promise settles to (\<open>Inl\<close>: the exception thrown) with the repository afterwards;
  \<open>salt\<close> is the salt that \<^verbatim>\<open>bcrypt.hash\<close> draws in this call.
\<close>

definition register ::
  "env \<Rightarrow> string \<Rightarrow> string \<Rightarrow> string \<Rightarrow> string \<Rightarrow> string \<Rightarrow> user_repo
   \<Rightarrow> (http_exception + register_result) \<times> user_repo" where
  "register env salt email name username password r0 =
     (let (existedUser, r1) = userRepo_findOne (WhereEmail email) r0 in
      if existedUser \<noteq> None then
        (Inl (ConflictException ''User already exists with this email''), r1)
      else
        let (usedUserName, r2) = userRepo_findOne (WhereUsername username) r1 in
        if usedUserName \<noteq> None then
          (Inl (ConflictException ''Username is already taken''), r2)
        else
          let hashed = bcrypt_hash env password 10 salt;
              (user, r3) = userRepo_create
                 \<lparr>user_id = None, user_username = username, user_name = name,
                  user_email = email, user_password = hashed\<rparr> r2;
              (res, r4) = userRepo_save env user r3
          in (Inr \<lparr>register_message = ''User created successfully!'',
                   register_user = \<lparr>view_id = user_id res, view_username = user_username res,
                                    view_name = user_name res, view_email = user_email res\<rparr>\<rparr>,
              r4))"

subsection \<open>login\<close>

record login_result =
  login_message :: string
  login_name :: string
  login_accessToken :: string

text \<open>\<^verbatim>\<open>async login(email, password)\<close>.\<close>

definition login ::
  "env \<Rightarrow> string \<Rightarrow> string \<Rightarrow> user_repo \<Rightarrow> (http_exception + login_result) \<times> user_repo" where
  "login env email password r0 =
     (let (existedUser, r1) = userRepo_findOne (WhereEmail email) r0 in
      case existedUser of
        None \<Rightarrow> (Inl (UnauthorizedException ''User Not Found''), r1)
      | Some u \<Rightarrow>
          (let isPasswordValid = bcrypt_compare env password (user_password u) in
           if \<not> isPasswordValid then
             (Inl (UnauthorizedException ''Invalid Password''), r1)
           else
             let payload = \<lparr>sub = user_id u, payload_username = user_username u\<rparr>;
                 accessToken = jwt_sign env payload
             in (Inr \<lparr>login_message = ''Login successful'', login_name = user_name u,
                      login_accessToken = accessToken\<rparr>,
                 r1)))"

subsection \<open>resetPassword\<close>

record reset_result =
  reset_message :: string

text \<open>
  \<^verbatim>\<open>!newPassword || newPassword.length < 6\<close>. The tests call the service with
  \<^verbatim>\<open>null\<close> for \<^verbatim>\<open>newPassword\<close>, so the argument is optional in the model:
  \<open>None\<close> is \<^verbatim>\<open>null\<close> or \<^verbatim>\<open>undefined\<close>, which are falsy as the empty string is.
\<close>

definition newPassword_rejected :: "string option \<Rightarrow> bool" where
  "newPassword_rejected newPassword =
     (case newPassword of
        None \<Rightarrow> True
      | Some p \<Rightarrow> p = [] \<or> length p < 6)"

text \<open>
  \<^verbatim>\<open>async resetPassword(email, oldPassword, newPassword)\<close>; \<open>salt\<close> is again the
  salt of its call of \<^verbatim>\<open>bcrypt.hash\<close>. The assignment
  \<^verbatim>\<open>user.password = hashed\<close> is the record update before \<^verbatim>\<open>save\<close>.
\<close>

definition resetPassword ::
  "env \<Rightarrow> string \<Rightarrow> string \<Rightarrow> string \<Rightarrow> string option \<Rightarrow> user_repo
   \<Rightarrow> (http_exception + reset_result) \<times> user_repo" where
  "resetPassword env salt email oldPassword newPassword r0 =
     (let (found, r1) = userRepo_findOne (WhereEmail email) r0 in
      case found of
        None \<Rightarrow> (Inl (NotFoundException ''No user found with this email''), r1)
      | Some user \<Rightarrow>
          (let isOldPasswordValid = bcrypt_compare env oldPassword (user_password user) in
           if \<not> isOldPasswordValid then
             (Inl (UnauthorizedException ''Old password is incorrect''), r1)
           else if newPassword_rejected newPassword then
             (Inl (BadRequestException ''New password must be at least 6 characters long''), r1)
           else
             let hashed = bcrypt_hash env (case newPassword of Some p \<Rightarrow> p | None \<Rightarrow> []) 10 salt;
                 user' = user\<lparr>user_password := hashed\<rparr>;
                 (saved, r2) = userRepo_save env user' r1
             in (Inr \<lparr>reset_message = ''Password changed successfully!''\<rparr>, r2)))"

text \<open>
  Stand-ins for bcrypt, the JWT library and the key generator, to run the service on
  concrete inputs: the hash is the salt, a separator and the password, and
  \<open>compare\<close> reads the password back from the end of the hash.
\<close>

definition demo_env :: env where
  "demo_env =
     \<lparr>bcrypt_hash = (\<lambda>p rounds salt. salt @ ''$'' @ p),
      bcrypt_compare = (\<lambda>p h. take (Suc (length p)) (rev h) = rev (''$'' @ p)),
      jwt_sign = (\<lambda>c. ''jwt:'' @ (case sub c of Some i \<Rightarrow> i | None \<Rightarrow> []) @ '':'' @ payload_username c),
      new_uuid = (\<lambda>us. ''id-'' @ replicate (length us) (CHR ''i''))\<rparr>"

text \<open>
  A table with one registered user, whose stored hash is that of \<^verbatim>\<open>"secret1"\<close>.
\<close>

definition demo_user :: user where
  "demo_user =
     \<lparr>user_id = Some ''1'', user_username = ''a1'', user_name = ''A'',
      user_email = ''a@x.com'', user_password = ''s1$secret1''\<rparr>"

definition demo_repo :: user_repo where
  "demo_repo = \<lparr>user_rows = [demo_user], repo_calls = []\<rparr>"

section \<open>Access to the task routes\<close>

text \<open>
  An incoming request, as far as the middleware and the guard read it: the
  \<^verbatim>\<open>Authorization\<close> header, the body, and \<^verbatim>\<open>req.user\<close>, where the decoded
  claims are attached.
\<close>

record request =
  req_authorization :: "string option"
  req_body :: js_value
  req_user :: "jwt_payload option"

text \<open>
  \<^verbatim>\<open>AuthMiddleware.use(req, res, next)\<close> (auth/auth.middleware.ts) reads
  \<^verbatim>\<open>req.body\<close>, logs it and calls \<^verbatim>\<open>next()\<close>.
\<close>

definition AuthMiddleware_use :: "request \<Rightarrow> (request \<Rightarrow> 'r) \<Rightarrow> 'r" where
  "AuthMiddleware_use req next = (let authHeader = req_body req in next req)"

text \<open>
  What the Token Issuer's \<^verbatim>\<open>verify(token)\<close> answers: the claims, or one of the
  failures the spec names. The function itself (secret, algorithm, clock) is a parameter.
\<close>

datatype jwt_verify_result =
    TokenMalformed
  | SignatureInvalid
  | TokenExpired
  | TokenValid jwt_payload

text \<open>
  Modelled from the spec: \<^verbatim>\<open>JwtAuthGuard\<close> (auth/jwt-auth.guard.ts) and its strategy
  (auth/jwt.strategy.ts) are not among the sources; only the controller that applies the
  guard is. Following section 4.2 of the spec, the guard extracts a bearer token from the
  Authorization header, verifies it, and on success attaches the decoded claims to the
  request; it fails with \<open>Unauthorized\<close> when the header is missing or malformed, the
  signature does not verify, or the token has expired.
\<close>

definition bearer_token :: "string option \<Rightarrow> string option" where
  "bearer_token header =
     (case header of
        None \<Rightarrow> None
      | Some h \<Rightarrow>
          if take 7 h = ''Bearer '' \<and> drop 7 h \<noteq> [] then Some (drop 7 h) else None)"

definition JwtAuthGuard :: "(string \<Rightarrow> jwt_verify_result) \<Rightarrow> request \<Rightarrow> http_exception + request" where
  "JwtAuthGuard jwt_verify req =
     (case bearer_token (req_authorization req) of
        None \<Rightarrow> Inl (UnauthorizedException ''Unauthorized'')
      | Some token \<Rightarrow>
          (case jwt_verify token of
             TokenValid claims \<Rightarrow> Inr (req\<lparr>req_user := Some claims\<rparr>)
           | _ \<Rightarrow> Inl (UnauthorizedException ''Unauthorized'')))"

text \<open>
  \<^verbatim>\<open>AuthLoggingInterceptor.intercept(context, next)\<close> (auth/auth-logging.interceptor.ts)
  reads \<^verbatim>\<open>request.user\<close>, logs, and returns \<^verbatim>\<open>next.handle()\<close> with a logging tap.
\<close>

definition AuthLoggingInterceptor_intercept :: "request \<Rightarrow> (request \<Rightarrow> 'r) \<Rightarrow> 'r" where
  "AuthLoggingInterceptor_intercept req next = (let user = req_user req in next req)"

subsection \<open>Validation of the request body\<close>

text \<open>
  The decorators of \<^verbatim>\<open>updateTaskDto\<close> (tasks/dto/update-task.dto.ts), as data: each
  property with its validators.
\<close>

datatype validator = IsString | IsOptional | IsBoolean

type_synonym dto_class = "(string \<times> validator list) list"

definition updateTaskDto :: dto_class where
  "updateTaskDto =
     [(''title'', [IsString, IsOptional]),
      (''description'', [IsString, IsOptional]),
      (''completed'', [IsBoolean])]"

text \<open>
  \<^verbatim>\<open>ValidationPipe\<close> is the framework's, over class-validator. On a body bound to a DTO
  class it collects the constraint violations and throws \<open>BadRequestException\<close> when
  there is one: \<^verbatim>\<open>@IsString\<close> and \<^verbatim>\<open>@IsBoolean\<close> test \<^verbatim>\<open>typeof\<close>,
  \<^verbatim>\<open>@IsOptional\<close> skips the property's validators when the value is \<^verbatim>\<open>undefined\<close>
  or \<^verbatim>\<open>null\<close>. With \<^verbatim>\<open>whitelist\<close> the properties without decorator are stripped,
  and with \<^verbatim>\<open>forbidNonWhitelisted\<close> they are violations instead. A body that is not a
  plain object has none of the DTO's properties. The message of the exception, a list
  in the framework, is the violations joined by commas.
\<close>

definition property :: "js_value \<Rightarrow> string \<Rightarrow> js_value" where
  "property v k =
     (case v of
        JObject kvs \<Rightarrow> (case map_of kvs k of Some x \<Rightarrow> x | None \<Rightarrow> JUndefined)
      | _ \<Rightarrow> JUndefined)"

definition own_keys :: "js_value \<Rightarrow> string list" where
  "own_keys v = (case v of JObject kvs \<Rightarrow> map fst kvs | _ \<Rightarrow> [])"

fun constraint_violation :: "string \<Rightarrow> validator \<Rightarrow> js_value \<Rightarrow> string list" where
  "constraint_violation k IsString v = (if typeof v = ''string'' then [] else [k @ '' must be a string''])"
| "constraint_violation k IsBoolean v =
     (if typeof v = ''boolean'' then [] else [k @ '' must be a boolean value''])"
| "constraint_violation k IsOptional v = []"

definition property_violations :: "js_value \<Rightarrow> string \<times> validator list \<Rightarrow> string list" where
  "property_violations body p =
     (let v = property body (fst p) in
      if IsOptional \<in> set (snd p) \<and> (v = JUndefined \<or> v = JNull) then []
      else concat (map (\<lambda>c. constraint_violation (fst p) c v) (snd p)))"

fun join_messages :: "string list \<Rightarrow> string" where
  "join_messages [] = []"
| "join_messages [m] = m"
| "join_messages (m # ms) = m @ '', '' @ join_messages ms"

definition strip_unknown :: "dto_class \<Rightarrow> js_value \<Rightarrow> js_value" where
  "strip_unknown dto v =
     (case v of
        JObject kvs \<Rightarrow> JObject (filter (\<lambda>kv. fst kv \<in> set (map fst dto)) kvs)
      | _ \<Rightarrow> v)"

definition ValidationPipe :: "bool \<Rightarrow> bool \<Rightarrow> dto_class \<Rightarrow> js_value \<Rightarrow> http_exception + js_value" where
  "ValidationPipe whitelist forbidNonWhitelisted dto body =
     (let unknown = filter (\<lambda>k. k \<notin> set (map fst dto)) (own_keys body);
          violations =
            (if whitelist \<and> forbidNonWhitelisted
             then map (\<lambda>k. ''property '' @ k @ '' should not exist'') unknown
             else [])
            @ concat (map (property_violations body) dto)
      in if violations \<noteq> [] then Inl (BadRequestException (join_messages violations))
         else Inr (if whitelist then strip_unknown dto body else body))"

text \<open>
  The pipes on the body of \<^verbatim>\<open>PUT /tasks/:id/update\<close>: the global
  \<^verbatim>\<open>ValidationPipe({ whitelist: true, forbidNonWhitelisted: true })\<close> of
  \<^verbatim>\<open>main.ts\<close>, then the \<^verbatim>\<open>ValidationPipe({ whitelist: true })\<close> of
  \<^verbatim>\<open>@UsePipes\<close> on the method. \<^verbatim>\<open>DELETE /tasks/:id\<close> binds only the string
  parameter \<^verbatim>\<open>id\<close>, which \<^verbatim>\<open>ValidationPipe\<close> returns as it is.
\<close>

definition updateTask_pipes :: "js_value \<Rightarrow> http_exception + js_value" where
  "updateTask_pipes body =
     (case ValidationPipe True True updateTaskDto body of
        Inl e \<Rightarrow> Inl e
      | Inr body' \<Rightarrow> ValidationPipe True False updateTaskDto body')"

definition deleteTask_pipes :: "js_value \<Rightarrow> http_exception + js_value" where
  "deleteTask_pipes body = Inr body"

subsection \<open>The routes of the controller\<close>

text \<open>
  A route of \<^verbatim>\<open>TasksController\<close>, which carries \<^verbatim>\<open>@UseGuards(JwtAuthGuard)\<close> and
  \<^verbatim>\<open>@UseInterceptors(AuthLoggingInterceptor)\<close> on the class. The framework runs the
  guard first, then the interceptor, then the pipes of the route on the body, and the
  controller method only on what the pipes return. The module that would mount
  \<open>AuthMiddleware\<close> is not among the sources, so whether it runs in front of the guard
  is the flag \<open>mounted\<close>. The handler is one of the controller's methods, acting on the
  state \<open>st\<close> of the task service.
\<close>

definition tasks_route ::
  "bool \<Rightarrow> (string \<Rightarrow> jwt_verify_result) \<Rightarrow> (js_value \<Rightarrow> http_exception + js_value)
   \<Rightarrow> (request \<Rightarrow> 'st \<Rightarrow> 'a \<times> 'st) \<Rightarrow> request \<Rightarrow> 'st \<Rightarrow> (http_exception + 'a) \<times> 'st" where
  "tasks_route mounted jwt_verify pipes handler req st =
     (let piped = (\<lambda>rq. case pipes (req_body rq) of
                           Inl e \<Rightarrow> (Inl e, st)
                         | Inr body \<Rightarrow>
                             (let (a, st') = handler (rq\<lparr>req_body := body\<rparr>) st in (Inr a, st')));
          guarded = (\<lambda>rq. case JwtAuthGuard jwt_verify rq of
                             Inl e \<Rightarrow> (Inl e, st)
                           | Inr rq' \<Rightarrow> AuthLoggingInterceptor_intercept rq' piped)
      in if mounted then AuthMiddleware_use req guarded else guarded req)"

text \<open>\<^verbatim>\<open>TasksController.deleteTask\<close>: \<^verbatim>\<open>@Delete(':id')\<close>, returning what the service returns.\<close>

definition TasksController_deleteTask ::
  "string \<Rightarrow> request \<Rightarrow> task list \<Rightarrow> (typeorm_error + string) \<times> task list" where
  "TasksController_deleteTask i req tasks = deleteTask i tasks"

text \<open>
  \<^verbatim>\<open>TasksController.updateTask\<close>: \<^verbatim>\<open>@Put(':id/update')\<close>. It destructures the body
  and answers with the task or, when the service returns \<^verbatim>\<open>null\<close>, with a text. On a
  body the pipes have accepted, \<^verbatim>\<open>title\<close> and \<^verbatim>\<open>description\<close> are strings or
  nullish and \<^verbatim>\<open>completed\<close> is a boolean.
\<close>

datatype update_reply = ReplyTask task | ReplyText string

definition string_property :: "js_value \<Rightarrow> string \<Rightarrow> string option" where
  "string_property dto k = (case property dto k of JString s \<Rightarrow> Some s | _ \<Rightarrow> None)"

definition boolean_property :: "js_value \<Rightarrow> string \<Rightarrow> bool option" where
  "boolean_property dto k = (case property dto k of JBoolean b \<Rightarrow> Some b | _ \<Rightarrow> None)"

definition TasksController_updateTask ::
  "string \<Rightarrow> request \<Rightarrow> task list \<Rightarrow> update_reply \<times> task list" where
  "TasksController_updateTask i req tasks =
     (let dto = req_body req;
          (task, tasks') = updateTask i (string_property dto ''title'')
                             (string_property dto ''description'') (boolean_property dto ''completed'') tasks
      in case task of
           None \<Rightarrow> (ReplyText ''No task was found with this id'', tasks')
         | Some t \<Rightarrow> (ReplyTask t, tasks'))"

text \<open>A verifier, requests and a stored task to run the routes on.\<close>

definition demo_verify :: "string \<Rightarrow> jwt_verify_result" where
  "demo_verify token =
     (if token = ''good'' then TokenValid \<lparr>sub = Some ''1'', payload_username = ''ayman''\<rparr>
      else if token = ''old'' then TokenExpired
      else if token = ''forged'' then SignatureInvalid
      else TokenMalformed)"

definition demo_request :: "string option \<Rightarrow> js_value \<Rightarrow> request" where
  "demo_request header body = \<lparr>req_authorization = header, req_body = body, req_user = None\<rparr>"

definition demo_task :: task where
  "demo_task =
     \<lparr>task_id = ''1'', title = ''Test Task'', description = ''Test Description'', completed = False\<rparr>"

text \<open>
  Two bodies for \<^verbatim>\<open>PUT /tasks/1/update\<close>: \<^verbatim>\<open>{"title": "x", "completed": true}\<close>,
  and \<^verbatim>\<open>{"title": "x"}\<close>, which lacks the required \<^verbatim>\<open>completed\<close>.
\<close>

definition demo_body_ok :: js_value where
  "demo_body_ok = JObject [(''title'', JString ''x''), (''completed'', JBoolean True)]"

definition demo_body_incomplete :: js_value where
  "demo_body_incomplete = JObject [(''title'', JString ''x'')]"

section \<open>Properties of the pipe\<close>

lemma typeof_object_iff:
  "typeof v = ''object'' \<longleftrightarrow> v = JNull \<or> (\<exists>vs. v = JArray vs) \<or> (\<exists>kvs. v = JObject kvs)"
  by (cases v) simp_all

lemma typeof_string_iff: "typeof v = ''string'' \<longleftrightarrow> (\<exists>s. v = JString s)"
  by (cases v) simp_all

text \<open>
  C10. \<open>transform\<close> throws \<open>BadRequestException\<close> exactly when \<^verbatim>\<open>typeof\<close> of its
  input is neither \<^verbatim>\<open>'object'\<close> nor \<^verbatim>\<open>'string'\<close>; the null guard is always
  true, and \<^verbatim>\<open>transform(null)\<close> takes the object branch and returns \<^verbatim>\<open>null\<close>
  unchanged.
\<close>

theorem transform_throws_iff:
  "((\<exists>e. transform up v = Inl e) \<longleftrightarrow> typeof v \<noteq> ''object'' \<and> typeof v \<noteq> ''string'')
   \<and> (\<forall>e. transform up v = Inl e \<longrightarrow>
          e = BadRequestException ''Validation failed: value must be string or object'')
   \<and> JString (typeof v) \<noteq> JNull
   \<and> typeof JNull = ''object''
   \<and> transform up JNull = Inr JNull"
  by (cases v) (simp_all add: transform_def)

theorem transform_throws_iff_witness:
  "typeof (JNumber 7) \<noteq> ''object'' \<and> typeof (JNumber 7) \<noteq> ''string''
   \<and> transform ascii_upper (JNumber 7)
       = Inl (BadRequestException ''Validation failed: value must be string or object'')
   \<and> transform ascii_upper JNull = Inr JNull
   \<and> transform ascii_upper (JString ''abc'') = Inr (JString ''ABC'')
   \<and> transform ascii_upper (JObject [(''title'', JString ''buy milk''), (''n'', JNumber 1)])
       = Inr (JObject [(''title'', JString ''BUY MILK''), (''n'', JNumber 1)])"
proof -
  have t: "typeof (JNumber 7) \<noteq> ''object'' \<and> typeof (JNumber 7) \<noteq> ''string''"
    by simp
  from transform_throws_iff [of ascii_upper "JNumber 7"] t
  obtain e where e: "transform ascii_upper (JNumber 7) = Inl e"
    by blast
  with transform_throws_iff [of ascii_upper "JNumber 7"]
  have msg: "e = BadRequestException ''Validation failed: value must be string or object''"
    by blast
  have str: "transform ascii_upper (JString ''abc'') = Inr (JString ''ABC'')"
    by (simp add: transform_def ascii_upper_def ascii_upper_char_def)
  have obj: "transform ascii_upper (JObject [(''title'', JString ''buy milk''), (''n'', JNumber 1)])
       = Inr (JObject [(''title'', JString ''BUY MILK''), (''n'', JNumber 1)])"
    by (simp add: transform_def upper_property_def ascii_upper_def ascii_upper_char_def)
  from e msg t str obj transform_throws_iff [of ascii_upper "JNumber 7"] show ?thesis
    by blast
qed

section \<open>Properties of AuthService\<close>

subsection \<open>What each path of the service returns\<close>

lemma find_email_None_iff:
  "find (matches (WhereEmail e)) us = None \<longleftrightarrow> e \<notin> user_email ` set us"
  by (auto simp: find_None_iff)

lemma find_username_None_iff:
  "find (matches (WhereUsername n)) us = None \<longleftrightarrow> n \<notin> user_username ` set us"
  by (auto simp: find_None_iff)

lemma matches_WhereEmail: "matches (WhereEmail e) = (\<lambda>u. user_email u = e)"
  by (rule ext) simp

lemma register_email_taken:
  assumes "email \<in> user_email ` set (user_rows r)"
  shows "register env salt email name username password r =
           (Inl (ConflictException ''User already exists with this email''),
            r\<lparr>repo_calls := repo_calls r @ [FindOne (WhereEmail email)]\<rparr>)"
proof -
  from assms have "find (matches (WhereEmail email)) (user_rows r) \<noteq> None"
    by (simp add: find_email_None_iff)
  then show ?thesis
    by (simp add: register_def userRepo_findOne_def)
qed

lemma register_username_taken:
  assumes "email \<notin> user_email ` set (user_rows r)"
    and "username \<in> user_username ` set (user_rows r)"
  shows "register env salt email name username password r =
           (Inl (ConflictException ''Username is already taken''),
            r\<lparr>repo_calls := repo_calls r @ [FindOne (WhereEmail email), FindOne (WhereUsername username)]\<rparr>)"
proof -
  from assms(1) have e: "find (matches (WhereEmail email)) (user_rows r) = None"
    by (simp add: find_email_None_iff)
  from assms(2) have u: "find (matches (WhereUsername username)) (user_rows r) \<noteq> None"
    by (simp add: find_username_None_iff)
  from e u show ?thesis
    by (simp add: register_def userRepo_findOne_def)
qed

lemma register_fresh:
  assumes "email \<notin> user_email ` set (user_rows r)"
    and "username \<notin> user_username ` set (user_rows r)"
  shows "register env salt email name username password r =
           (Inr \<lparr>register_message = ''User created successfully!'',
                 register_user = \<lparr>view_id = Some (new_uuid env (user_rows r)), view_username = username,
                                  view_name = name, view_email = email\<rparr>\<rparr>,
            \<lparr>user_rows = user_rows r @
                 [\<lparr>user_id = Some (new_uuid env (user_rows r)), user_username = username,
                   user_name = name, user_email = email,
                   user_password = bcrypt_hash env password 10 salt\<rparr>],
              repo_calls = repo_calls r @
                 [FindOne (WhereEmail email), FindOne (WhereUsername username),
                  Create \<lparr>user_id = None, user_username = username, user_name = name,
                          user_email = email, user_password = bcrypt_hash env password 10 salt\<rparr>,
                  Save \<lparr>user_id = None, user_username = username, user_name = name,
                        user_email = email, user_password = bcrypt_hash env password 10 salt\<rparr>]\<rparr>)"
proof -
  from assms(1) have e: "find (matches (WhereEmail email)) (user_rows r) = None"
    by (simp add: find_email_None_iff)
  from assms(2) have u: "find (matches (WhereUsername username)) (user_rows r) = None"
    by (simp add: find_username_None_iff)
  from e u show ?thesis
    by (simp add: register_def userRepo_findOne_def userRepo_create_def userRepo_save_def Let_def)
qed

lemma login_not_found:
  assumes "find (\<lambda>u. user_email u = email) (user_rows r) = None"
  shows "login env email password r =
           (Inl (UnauthorizedException ''User Not Found''),
            r\<lparr>repo_calls := repo_calls r @ [FindOne (WhereEmail email)]\<rparr>)"
  using assms by (simp add: login_def userRepo_findOne_def matches_WhereEmail)

lemma login_found:
  assumes "find (\<lambda>u. user_email u = email) (user_rows r) = Some u"
  shows "login env email password r =
           ((if bcrypt_compare env password (user_password u)
             then Inr \<lparr>login_message = ''Login successful'', login_name = user_name u,
                       login_accessToken = jwt_sign env \<lparr>sub = user_id u, payload_username = user_username u\<rparr>\<rparr>
             else Inl (UnauthorizedException ''Invalid Password'')),
            r\<lparr>repo_calls := repo_calls r @ [FindOne (WhereEmail email)]\<rparr>)"
  using assms by (simp add: login_def userRepo_findOne_def matches_WhereEmail Let_def)

lemma reset_not_found:
  assumes "find (\<lambda>u. user_email u = email) (user_rows r) = None"
  shows "resetPassword env salt email oldPassword newPassword r =
           (Inl (NotFoundException ''No user found with this email''),
            r\<lparr>repo_calls := repo_calls r @ [FindOne (WhereEmail email)]\<rparr>)"
  using assms by (simp add: resetPassword_def userRepo_findOne_def matches_WhereEmail)

lemma reset_old_wrong:
  assumes "find (\<lambda>u. user_email u = email) (user_rows r) = Some u"
    and "\<not> bcrypt_compare env oldPassword (user_password u)"
  shows "resetPassword env salt email oldPassword newPassword r =
           (Inl (UnauthorizedException ''Old password is incorrect''),
            r\<lparr>repo_calls := repo_calls r @ [FindOne (WhereEmail email)]\<rparr>)"
  using assms by (simp add: resetPassword_def userRepo_findOne_def matches_WhereEmail Let_def)

lemma reset_new_rejected:
  assumes "find (\<lambda>u. user_email u = email) (user_rows r) = Some u"
    and "bcrypt_compare env oldPassword (user_password u)"
    and "newPassword_rejected newPassword"
  shows "resetPassword env salt email oldPassword newPassword r =
           (Inl (BadRequestException ''New password must be at least 6 characters long''),
            r\<lparr>repo_calls := repo_calls r @ [FindOne (WhereEmail email)]\<rparr>)"
  using assms by (simp add: resetPassword_def userRepo_findOne_def matches_WhereEmail Let_def)

lemma reset_accepted:
  assumes "find (\<lambda>u. user_email u = email) (user_rows r) = Some u"
    and "bcrypt_compare env oldPassword (user_password u)"
    and "\<not> newPassword_rejected (Some p)"
  shows "resetPassword env salt email oldPassword (Some p) r =
           (Inr \<lparr>reset_message = ''Password changed successfully!''\<rparr>,
            snd (userRepo_save env (u\<lparr>user_password := bcrypt_hash env p 10 salt\<rparr>)
                   (r\<lparr>repo_calls := repo_calls r @ [FindOne (WhereEmail email)]\<rparr>)))"
  using assms
  by (simp add: resetPassword_def userRepo_findOne_def matches_WhereEmail Let_def split_beta)

lemma newPassword_rejected_iff:
  "newPassword_rejected n \<longleftrightarrow> n = None \<or> n = Some [] \<or> (\<exists>p. n = Some p \<and> length p < 6)"
  by (cases n) (auto simp: newPassword_rejected_def)

lemma find_Some_mem: "find P xs = Some u \<Longrightarrow> u \<in> set xs \<and> P u"
  by (induction xs) (auto split: if_splits)

lemma find_map_replace:
  assumes "find P xs = Some u" and "P u'" and "Q u"
  shows "find P (map (\<lambda>x. if Q x then u' else x) xs) = Some u'"
  using assms by (induction xs) (auto split: if_splits)

lemma save_existing_rows:
  assumes "u \<in> set (user_rows r)" and "user_id u = Some i" and "user_id u' = Some i"
  shows "user_rows (snd (userRepo_save env u' r))
           = map (\<lambda>x. if user_id x = Some i then u' else x) (user_rows r)"
proof -
  from assms(1,2) have "Some i \<in> set (map user_id (user_rows r))"
    by force
  with assms(3) show ?thesis
    by (simp add: userRepo_save_def)
qed

subsection \<open>The stand-ins on the one-user table\<close>

lemma demo_rows: "user_rows demo_repo = [demo_user]"
  by (simp add: demo_repo_def)

lemma demo_find_a: "find (\<lambda>u. user_email u = ''a@x.com'') (user_rows demo_repo) = Some demo_user"
  by (simp add: demo_repo_def demo_user_def)

lemma demo_find_b: "find (\<lambda>u. user_email u = ''b@x.com'') (user_rows demo_repo) = None"
  by (simp add: demo_repo_def demo_user_def)

lemma demo_compare_ok: "bcrypt_compare demo_env ''secret1'' (user_password demo_user)"
  by (simp add: demo_env_def demo_user_def)

lemma demo_compare_wrong: "\<not> bcrypt_compare demo_env ''wrong'' (user_password demo_user)"
  by (simp add: demo_env_def demo_user_def)

lemma demo_emails: "''a@x.com'' \<in> user_email ` set (user_rows demo_repo)"
  "''b@x.com'' \<notin> user_email ` set (user_rows demo_repo)"
  by (simp_all add: demo_repo_def demo_user_def)

lemma demo_usernames: "''a1'' \<in> user_username ` set (user_rows demo_repo)"
  "''b2'' \<notin> user_username ` set (user_rows demo_repo)"
  by (simp_all add: demo_repo_def demo_user_def)

subsection \<open>Registration conflicts\<close>

text \<open>
  C4. Whatever the table holds, \<open>register\<close> fails with \<open>Conflict\<close> when the email
  is already registered, whether or not the username is taken, and fails with
  \<open>Conflict\<close> when the username is taken and the email is fresh. The email is looked
  up first: when both collide, the error is the one about the email.
\<close>

theorem register_conflicts:
  "(email \<in> user_email ` set (user_rows r) \<longrightarrow>
      fst (register env salt email name username password r)
        = Inl (ConflictException ''User already exists with this email''))
   \<and> (email \<notin> user_email ` set (user_rows r) \<and> username \<in> user_username ` set (user_rows r) \<longrightarrow>
      fst (register env salt email name username password r)
        = Inl (ConflictException ''Username is already taken''))"
  by (simp add: register_email_taken register_username_taken)

theorem register_conflicts_witness:
  "''a@x.com'' \<in> user_email ` set (user_rows demo_repo)
   \<and> fst (register demo_env ''s2'' ''a@x.com'' ''B'' ''b2'' ''secret2'' demo_repo)
       = Inl (ConflictException ''User already exists with this email'')
   \<and> ''a1'' \<in> user_username ` set (user_rows demo_repo)
   \<and> fst (register demo_env ''s2'' ''a@x.com'' ''A'' ''a1'' ''secret2'' demo_repo)
       = Inl (ConflictException ''User already exists with this email'')
   \<and> ''b@x.com'' \<notin> user_email ` set (user_rows demo_repo)
   \<and> fst (register demo_env ''s2'' ''b@x.com'' ''B'' ''a1'' ''secret2'' demo_repo)
       = Inl (ConflictException ''Username is already taken'')"
proof -
  note e = demo_emails and n = demo_usernames
  have c1: "fst (register demo_env ''s2'' ''a@x.com'' ''B'' ''b2'' ''secret2'' demo_repo)
       = Inl (ConflictException ''User already exists with this email'')"
    by (rule register_conflicts [THEN conjunct1, THEN mp, OF e(1)])
  have c2: "fst (register demo_env ''s2'' ''a@x.com'' ''A'' ''a1'' ''secret2'' demo_repo)
       = Inl (ConflictException ''User already exists with this email'')"
    by (rule register_conflicts [THEN conjunct1, THEN mp, OF e(1)])
  have c3: "fst (register demo_env ''s2'' ''b@x.com'' ''B'' ''a1'' ''secret2'' demo_repo)
       = Inl (ConflictException ''Username is already taken'')"
    by (rule register_conflicts [THEN conjunct2, THEN mp, OF conjI [OF e(2) n(1)]])
  show ?thesis
    by (intro conjI e n c1 c2 c3)
qed

subsection \<open>Login\<close>

text \<open>
  C2. \<open>login(email, P)\<close> fails with \<open>Unauthorized("User Not Found")\<close> when no row has
  the email; for the stored user with that email it fails with
  \<open>Unauthorized("Invalid Password")\<close> when \<^verbatim>\<open>bcrypt.compare\<close> of \<open>P\<close> with the
  stored hash fails, and succeeds exactly when the comparison succeeds, returning the
  user's name and the token signed over the claims \<open>sub\<close> (the user's id) and
  \<open>username\<close>.
\<close>

theorem login_outcomes:
  "(find (\<lambda>u. user_email u = email) (user_rows r) = None \<longrightarrow>
      fst (login env email P r) = Inl (UnauthorizedException ''User Not Found''))
   \<and> (\<forall>u. find (\<lambda>u. user_email u = email) (user_rows r) = Some u
          \<and> \<not> bcrypt_compare env P (user_password u) \<longrightarrow>
      fst (login env email P r) = Inl (UnauthorizedException ''Invalid Password''))
   \<and> (\<forall>u. find (\<lambda>u. user_email u = email) (user_rows r) = Some u
          \<and> bcrypt_compare env P (user_password u) \<longrightarrow>
      fst (login env email P r)
        = Inr \<lparr>login_message = ''Login successful'', login_name = user_name u,
               login_accessToken = jwt_sign env \<lparr>sub = user_id u, payload_username = user_username u\<rparr>\<rparr>)
   \<and> (\<forall>u. find (\<lambda>u. user_email u = email) (user_rows r) = Some u \<longrightarrow>
        ((\<exists>res. fst (login env email P r) = Inr res) \<longleftrightarrow> bcrypt_compare env P (user_password u)))"
  by (simp add: login_not_found login_found)

theorem login_outcomes_witness:
  "find (\<lambda>u. user_email u = ''b@x.com'') (user_rows demo_repo) = None
   \<and> fst (login demo_env ''b@x.com'' ''secret1'' demo_repo) = Inl (UnauthorizedException ''User Not Found'')
   \<and> find (\<lambda>u. user_email u = ''a@x.com'') (user_rows demo_repo) = Some demo_user
   \<and> \<not> bcrypt_compare demo_env ''wrong'' (user_password demo_user)
   \<and> fst (login demo_env ''a@x.com'' ''wrong'' demo_repo) = Inl (UnauthorizedException ''Invalid Password'')
   \<and> bcrypt_compare demo_env ''secret1'' (user_password demo_user)
   \<and> fst (login demo_env ''a@x.com'' ''secret1'' demo_repo)
       = Inr \<lparr>login_message = ''Login successful'', login_name = user_name demo_user,
              login_accessToken =
                jwt_sign demo_env \<lparr>sub = user_id demo_user, payload_username = user_username demo_user\<rparr>\<rparr>"
proof -
  have c1: "fst (login demo_env ''b@x.com'' ''secret1'' demo_repo) = Inl (UnauthorizedException ''User Not Found'')"
    by (rule login_outcomes [THEN conjunct1, THEN mp, OF demo_find_b])
  have c2: "fst (login demo_env ''a@x.com'' ''wrong'' demo_repo) = Inl (UnauthorizedException ''Invalid Password'')"
    by (rule login_outcomes [THEN conjunct2, THEN conjunct1, THEN spec, THEN mp,
          OF conjI [OF demo_find_a demo_compare_wrong]])
  have c3: "fst (login demo_env ''a@x.com'' ''secret1'' demo_repo)
       = Inr \<lparr>login_message = ''Login successful'', login_name = user_name demo_user,
              login_accessToken =
                jwt_sign demo_env \<lparr>sub = user_id demo_user, payload_username = user_username demo_user\<rparr>\<rparr>"
    by (rule login_outcomes [THEN conjunct2, THEN conjunct2, THEN conjunct1, THEN spec, THEN mp,
          OF conjI [OF demo_find_a demo_compare_ok]])
  show ?thesis
    by (intro conjI demo_find_b c1 demo_find_a demo_compare_wrong c2 demo_compare_ok c3)
qed

subsection \<open>Password reset\<close>

text \<open>
  C3. \<open>resetPassword\<close> checks in a fixed order: \<open>NotFound\<close> when no row has the
  email; otherwise \<open>Unauthorized("Old password is incorrect")\<close> when the old password
  does not match the stored hash, whatever the new password is; otherwise
  \<open>BadRequest\<close> when the new password is absent, empty or shorter than 6; otherwise
  success.
\<close>

theorem resetPassword_check_order:
  "(find (\<lambda>u. user_email u = email) (user_rows r) = None \<longrightarrow>
      fst (resetPassword env salt email oldPassword newPassword r)
        = Inl (NotFoundException ''No user found with this email''))
   \<and> (\<forall>u. find (\<lambda>u. user_email u = email) (user_rows r) = Some u
          \<and> \<not> bcrypt_compare env oldPassword (user_password u) \<longrightarrow>
      fst (resetPassword env salt email oldPassword newPassword r)
        = Inl (UnauthorizedException ''Old password is incorrect''))
   \<and> (\<forall>u. find (\<lambda>u. user_email u = email) (user_rows r) = Some u
          \<and> bcrypt_compare env oldPassword (user_password u)
          \<and> (newPassword = None \<or> newPassword = Some [] \<or> (\<exists>p. newPassword = Some p \<and> length p < 6)) \<longrightarrow>
      fst (resetPassword env salt email oldPassword newPassword r)
        = Inl (BadRequestException ''New password must be at least 6 characters long''))
   \<and> (\<forall>u p. find (\<lambda>u. user_email u = email) (user_rows r) = Some u
          \<and> bcrypt_compare env oldPassword (user_password u)
          \<and> newPassword = Some p \<and> 6 \<le> length p \<longrightarrow>
      fst (resetPassword env salt email oldPassword newPassword r)
        = Inr \<lparr>reset_message = ''Password changed successfully!''\<rparr>)"
proof (intro conjI allI impI)
  assume "find (\<lambda>u. user_email u = email) (user_rows r) = None"
  then show "fst (resetPassword env salt email oldPassword newPassword r)
        = Inl (NotFoundException ''No user found with this email'')"
    by (simp add: reset_not_found)
next
  fix u
  assume "find (\<lambda>u. user_email u = email) (user_rows r) = Some u
          \<and> \<not> bcrypt_compare env oldPassword (user_password u)"
  then show "fst (resetPassword env salt email oldPassword newPassword r)
        = Inl (UnauthorizedException ''Old password is incorrect'')"
    by (simp add: reset_old_wrong)
next
  fix u
  assume a: "find (\<lambda>u. user_email u = email) (user_rows r) = Some u
          \<and> bcrypt_compare env oldPassword (user_password u)
          \<and> (newPassword = None \<or> newPassword = Some [] \<or> (\<exists>p. newPassword = Some p \<and> length p < 6))"
  then have "newPassword_rejected newPassword"
    by (simp add: newPassword_rejected_iff)
  with a show "fst (resetPassword env salt email oldPassword newPassword r)
        = Inl (BadRequestException ''New password must be at least 6 characters long'')"
    by (simp add: reset_new_rejected)
next
  fix u p
  assume a: "find (\<lambda>u. user_email u = email) (user_rows r) = Some u
          \<and> bcrypt_compare env oldPassword (user_password u)
          \<and> newPassword = Some p \<and> 6 \<le> length p"
  then have "\<not> newPassword_rejected (Some p)"
    by (auto simp: newPassword_rejected_iff)
  with a show "fst (resetPassword env salt email oldPassword newPassword r)
        = Inr \<lparr>reset_message = ''Password changed successfully!''\<rparr>"
    by (simp add: reset_accepted)
qed

theorem resetPassword_check_order_witness:
  "find (\<lambda>u. user_email u = ''b@x.com'') (user_rows demo_repo) = None
   \<and> fst (resetPassword demo_env ''s2'' ''b@x.com'' ''secret1'' (Some ''123456'') demo_repo)
       = Inl (NotFoundException ''No user found with this email'')
   \<and> find (\<lambda>u. user_email u = ''a@x.com'') (user_rows demo_repo) = Some demo_user
   \<and> \<not> bcrypt_compare demo_env ''wrong'' (user_password demo_user)
   \<and> fst (resetPassword demo_env ''s2'' ''a@x.com'' ''wrong'' (Some ''12345'') demo_repo)
       = Inl (UnauthorizedException ''Old password is incorrect'')
   \<and> bcrypt_compare demo_env ''secret1'' (user_password demo_user)
   \<and> fst (resetPassword demo_env ''s2'' ''a@x.com'' ''secret1'' (Some ''12345'') demo_repo)
       = Inl (BadRequestException ''New password must be at least 6 characters long'')
   \<and> fst (resetPassword demo_env ''s2'' ''a@x.com'' ''secret1'' None demo_repo)
       = Inl (BadRequestException ''New password must be at least 6 characters long'')
   \<and> fst (resetPassword demo_env ''s2'' ''a@x.com'' ''secret1'' (Some ''123456'') demo_repo)
       = Inr \<lparr>reset_message = ''Password changed successfully!''\<rparr>"
proof -
  have c1: "fst (resetPassword demo_env ''s2'' ''b@x.com'' ''secret1'' (Some ''123456'') demo_repo)
       = Inl (NotFoundException ''No user found with this email'')"
    by (rule resetPassword_check_order [THEN conjunct1, THEN mp, OF demo_find_b])
  have c2: "fst (resetPassword demo_env ''s2'' ''a@x.com'' ''wrong'' (Some ''12345'') demo_repo)
       = Inl (UnauthorizedException ''Old password is incorrect'')"
    by (rule resetPassword_check_order [THEN conjunct2, THEN conjunct1, THEN spec, THEN mp,
          OF conjI [OF demo_find_a demo_compare_wrong]])
  have short: "Some ''12345'' = None \<or> Some ''12345'' = Some [] \<or> (\<exists>p. Some ''12345'' = Some p \<and> length p < 6)"
    by simp
  have c3: "fst (resetPassword demo_env ''s2'' ''a@x.com'' ''secret1'' (Some ''12345'') demo_repo)
       = Inl (BadRequestException ''New password must be at least 6 characters long'')"
    by (rule resetPassword_check_order [THEN conjunct2, THEN conjunct2, THEN conjunct1, THEN spec, THEN mp,
          OF conjI [OF demo_find_a conjI [OF demo_compare_ok short]]])
  have absent: "(None :: string option) = None \<or> None = Some [] \<or> (\<exists>p. None = Some p \<and> length p < 6)"
    by simp
  have c4: "fst (resetPassword demo_env ''s2'' ''a@x.com'' ''secret1'' None demo_repo)
       = Inl (BadRequestException ''New password must be at least 6 characters long'')"
    by (rule resetPassword_check_order [THEN conjunct2, THEN conjunct2, THEN conjunct1, THEN spec, THEN mp,
          OF conjI [OF demo_find_a conjI [OF demo_compare_ok absent]]])
  have long: "Some ''123456'' = Some ''123456'' \<and> 6 \<le> length ''123456''"
    by simp
  have c5: "fst (resetPassword demo_env ''s2'' ''a@x.com'' ''secret1'' (Some ''123456'') demo_repo)
       = Inr \<lparr>reset_message = ''Password changed successfully!''\<rparr>"
    by (rule resetPassword_check_order [THEN conjunct2, THEN conjunct2, THEN conjunct2, THEN spec, THEN spec, THEN mp,
          OF conjI [OF demo_find_a conjI [OF demo_compare_ok long]]])
  show ?thesis
    by (intro conjI demo_find_b c1 demo_find_a demo_compare_wrong c2 demo_compare_ok c3 c4 c5)
qed

subsection \<open>Successful registration\<close>

lemma demo_uuid: "new_uuid demo_env (user_rows demo_repo) = ''id-i''"
  by (simp add: demo_env_def demo_repo_def)

lemma demo_hash: "bcrypt_hash demo_env ''secret1'' 10 ''s2'' = ''s2$secret1''"
  by (simp add: demo_env_def)

lemma demo_hash_differs: "bcrypt_hash demo_env ''secret1'' 10 ''s2'' \<noteq> ''secret1''"
  by (simp add: demo_env_def)

text \<open>
  C6. With a fresh email and a fresh username, \<open>register\<close> hashes the password with
  \<^verbatim>\<open>bcrypt.hash(password, 10)\<close>, appends one row whose password field is that hash
  (so it is not the plaintext wherever bcrypt's output differs from its input), and
  returns the success message with a view of the user holding id, username, name and
  email; the view type has no password field.
\<close>

theorem register_success:
  assumes "email \<notin> user_email ` set (user_rows r)"
    and "username \<notin> user_username ` set (user_rows r)"
  shows "fst (register env salt email name username password r)
           = Inr \<lparr>register_message = ''User created successfully!'',
                  register_user = \<lparr>view_id = Some (new_uuid env (user_rows r)), view_username = username,
                                   view_name = name, view_email = email\<rparr>\<rparr>
         \<and> user_rows (snd (register env salt email name username password r))
           = user_rows r @
               [\<lparr>user_id = Some (new_uuid env (user_rows r)), user_username = username,
                 user_name = name, user_email = email,
                 user_password = bcrypt_hash env password 10 salt\<rparr>]
         \<and> (bcrypt_hash env password 10 salt \<noteq> password \<longrightarrow>
              user_password (last (user_rows (snd (register env salt email name username password r))))
                \<noteq> password)"
  by (simp add: register_fresh [OF assms])

theorem register_success_witness:
  "''b@x.com'' \<notin> user_email ` set (user_rows demo_repo)
   \<and> ''b2'' \<notin> user_username ` set (user_rows demo_repo)
   \<and> fst (register demo_env ''s2'' ''b@x.com'' ''B'' ''b2'' ''secret1'' demo_repo)
       = Inr \<lparr>register_message = ''User created successfully!'',
              register_user = \<lparr>view_id = Some ''id-i'', view_username = ''b2'',
                               view_name = ''B'', view_email = ''b@x.com''\<rparr>\<rparr>
   \<and> user_rows (snd (register demo_env ''s2'' ''b@x.com'' ''B'' ''b2'' ''secret1'' demo_repo))
       = [demo_user,
          \<lparr>user_id = Some ''id-i'', user_username = ''b2'', user_name = ''B'',
            user_email = ''b@x.com'', user_password = ''s2$secret1''\<rparr>]
   \<and> user_password (last (user_rows
         (snd (register demo_env ''s2'' ''b@x.com'' ''B'' ''b2'' ''secret1'' demo_repo)))) \<noteq> ''secret1''"
proof -
  note th = register_success [OF demo_emails(2) demo_usernames(2),
      of demo_env "''s2''" "''B''" "''secret1''"]
  have c1: "fst (register demo_env ''s2'' ''b@x.com'' ''B'' ''b2'' ''secret1'' demo_repo)
       = Inr \<lparr>register_message = ''User created successfully!'',
              register_user = \<lparr>view_id = Some ''id-i'', view_username = ''b2'',
                               view_name = ''B'', view_email = ''b@x.com''\<rparr>\<rparr>"
    by (rule th [THEN conjunct1, unfolded demo_uuid])
  have c2: "user_rows (snd (register demo_env ''s2'' ''b@x.com'' ''B'' ''b2'' ''secret1'' demo_repo))
       = [demo_user,
          \<lparr>user_id = Some ''id-i'', user_username = ''b2'', user_name = ''B'',
            user_email = ''b@x.com'', user_password = ''s2$secret1''\<rparr>]"
    by (rule th [THEN conjunct2, THEN conjunct1, unfolded demo_uuid demo_hash, unfolded demo_rows append.simps])
  have c3: "user_password (last (user_rows
         (snd (register demo_env ''s2'' ''b@x.com'' ''B'' ''b2'' ''secret1'' demo_repo)))) \<noteq> ''secret1''"
    by (rule th [THEN conjunct2, THEN conjunct2, THEN mp, OF demo_hash_differs])
  show ?thesis
    by (intro conjI demo_emails(2) demo_usernames(2) c1 c2 c3)
qed

text \<open>
  C7. \<open>register\<close> enforces no minimum password length: with a fresh email and
  username it succeeds for every password, the empty one included. The rule of at least
  6 characters is enforced by \<open>resetPassword\<close>, which rejects the same short password.
\<close>

theorem register_no_minimum_length:
  "(email \<notin> user_email ` set (user_rows r) \<and> username \<notin> user_username ` set (user_rows r) \<longrightarrow>
      (\<exists>res. fst (register env salt email name username password r) = Inr res))
   \<and> (\<forall>u. find (\<lambda>u. user_email u = email') (user_rows r') = Some u
          \<and> bcrypt_compare env oldPassword (user_password u) \<and> length password < 6 \<longrightarrow>
      fst (resetPassword env salt email' oldPassword (Some password) r')
        = Inl (BadRequestException ''New password must be at least 6 characters long''))"
proof (intro conjI allI impI)
  assume "email \<notin> user_email ` set (user_rows r) \<and> username \<notin> user_username ` set (user_rows r)"
  then show "\<exists>res. fst (register env salt email name username password r) = Inr res"
    by (simp add: register_fresh)
next
  fix u
  assume a: "find (\<lambda>u. user_email u = email') (user_rows r') = Some u
          \<and> bcrypt_compare env oldPassword (user_password u) \<and> length password < 6"
  then have "newPassword_rejected (Some password)"
    by (simp add: newPassword_rejected_iff)
  with a show "fst (resetPassword env salt email' oldPassword (Some password) r')
        = Inl (BadRequestException ''New password must be at least 6 characters long'')"
    by (simp add: reset_new_rejected)
qed

theorem register_no_minimum_length_witness:
  "''b@x.com'' \<notin> user_email ` set (user_rows demo_repo)
   \<and> ''b2'' \<notin> user_username ` set (user_rows demo_repo)
   \<and> (\<exists>res. fst (register demo_env ''s2'' ''b@x.com'' ''B'' ''b2'' [] demo_repo) = Inr res)
   \<and> find (\<lambda>u. user_email u = ''a@x.com'') (user_rows demo_repo) = Some demo_user
   \<and> bcrypt_compare demo_env ''secret1'' (user_password demo_user)
   \<and> length ([] :: string) < 6
   \<and> fst (resetPassword demo_env ''s2'' ''a@x.com'' ''secret1'' (Some []) demo_repo)
       = Inl (BadRequestException ''New password must be at least 6 characters long'')"
proof -
  have len: "length ([] :: string) < 6"
    by simp
  have c1: "\<exists>res. fst (register demo_env ''s2'' ''b@x.com'' ''B'' ''b2'' [] demo_repo) = Inr res"
    by (rule register_no_minimum_length [THEN conjunct1, THEN mp,
          OF conjI [OF demo_emails(2) demo_usernames(2)]])
  have c2: "fst (resetPassword demo_env ''s2'' ''a@x.com'' ''secret1'' (Some []) demo_repo)
       = Inl (BadRequestException ''New password must be at least 6 characters long'')"
    by (rule register_no_minimum_length [THEN conjunct2, THEN spec, THEN mp,
          OF conjI [OF demo_find_a conjI [OF demo_compare_ok len]]])
  show ?thesis
    by (intro conjI demo_emails(2) demo_usernames(2) c1 demo_find_a demo_compare_ok len c2)
qed

subsection \<open>Failed operations leave the table alone\<close>

lemma register_failure_atomic:
  assumes "fst (register env salt email name username password r) = Inl e"
  shows "user_rows (snd (register env salt email name username password r)) = user_rows r
         \<and> filter is_write (repo_calls (snd (register env salt email name username password r)))
             = filter is_write (repo_calls r)"
proof (cases "email \<in> user_email ` set (user_rows r)")
  case True
  then show ?thesis by (simp add: register_email_taken)
next
  case fresh_email: False
  show ?thesis
  proof (cases "username \<in> user_username ` set (user_rows r)")
    case True
    with fresh_email show ?thesis by (simp add: register_username_taken)
  next
    case False
    with fresh_email assms show ?thesis by (simp add: register_fresh)
  qed
qed

lemma login_atomic:
  "user_rows (snd (login env email password r)) = user_rows r
   \<and> filter is_write (repo_calls (snd (login env email password r))) = filter is_write (repo_calls r)"
  by (cases "find (\<lambda>u. user_email u = email) (user_rows r)")
     (simp_all add: login_not_found login_found)

lemma reset_success_cases:
  assumes "fst (resetPassword env salt email oldPassword newPassword r) = Inr res"
  obtains u p where "find (\<lambda>u. user_email u = email) (user_rows r) = Some u"
    and "bcrypt_compare env oldPassword (user_password u)"
    and "newPassword = Some p" and "\<not> newPassword_rejected (Some p)"
proof (cases "find (\<lambda>u. user_email u = email) (user_rows r)")
  case None
  with assms show ?thesis by (simp add: reset_not_found)
next
  case (Some u)
  show ?thesis
  proof (cases "bcrypt_compare env oldPassword (user_password u)")
    case False
    with Some assms show ?thesis by (simp add: reset_old_wrong)
  next
    case cmp: True
    show ?thesis
    proof (cases "newPassword_rejected newPassword")
      case True
      with Some cmp assms show ?thesis by (simp add: reset_new_rejected)
    next
      case False
      then obtain p where "newPassword = Some p"
        by (cases newPassword) (simp_all add: newPassword_rejected_def)
      with Some cmp False that show ?thesis by blast
    qed
  qed
qed

lemma reset_failure_atomic:
  assumes "fst (resetPassword env salt email oldPassword newPassword r) = Inl e"
  shows "user_rows (snd (resetPassword env salt email oldPassword newPassword r)) = user_rows r
         \<and> filter is_write (repo_calls (snd (resetPassword env salt email oldPassword newPassword r)))
             = filter is_write (repo_calls r)"
proof (cases "find (\<lambda>u. user_email u = email) (user_rows r)")
  case None
  then show ?thesis by (simp add: reset_not_found)
next
  case (Some u)
  show ?thesis
  proof (cases "bcrypt_compare env oldPassword (user_password u)")
    case False
    with Some show ?thesis by (simp add: reset_old_wrong)
  next
    case cmp: True
    show ?thesis
    proof (cases "newPassword_rejected newPassword")
      case True
      with Some cmp show ?thesis by (simp add: reset_new_rejected)
    next
      case False
      then obtain p where p: "newPassword = Some p"
        by (cases newPassword) (simp_all add: newPassword_rejected_def)
      with Some cmp False assms show ?thesis by (simp add: reset_accepted)
    qed
  qed
qed

lemma demo_ids: "\<forall>u \<in> set (user_rows demo_repo). user_id u \<noteq> None"
  by (simp add: demo_repo_def demo_user_def)

lemma demo_user_has_id: "user_id demo_user \<noteq> None"
  by (simp add: demo_user_def)

lemma secret_accepted: "\<not> newPassword_rejected (Some ''secret1'')" "\<not> newPassword_rejected (Some ''secret2'')"
  by (simp_all add: newPassword_rejected_def)

lemma short_rejected: "newPassword_rejected (Some ''12345'')"
  by (simp add: newPassword_rejected_def)

lemma demo_compare_new:
  "bcrypt_compare demo_env ''secret2'' (bcrypt_hash demo_env ''secret2'' 10 ''s2'')"
  "\<not> bcrypt_compare demo_env ''secret1'' (bcrypt_hash demo_env ''secret2'' 10 ''s2'')"
  "bcrypt_compare demo_env ''secret1'' (bcrypt_hash demo_env ''secret1'' 10 ''s2'')"
  by (simp_all add: demo_env_def)

lemma demo_reset_ok:
  "fst (resetPassword demo_env ''s2'' ''a@x.com'' ''secret1'' (Some ''secret2'') demo_repo)
     = Inr \<lparr>reset_message = ''Password changed successfully!''\<rparr>"
  "fst (resetPassword demo_env ''s2'' ''a@x.com'' ''secret1'' (Some ''secret1'') demo_repo)
     = Inr \<lparr>reset_message = ''Password changed successfully!''\<rparr>"
  by (simp_all add: reset_accepted [OF demo_find_a demo_compare_ok secret_accepted(1)]
        reset_accepted [OF demo_find_a demo_compare_ok secret_accepted(2)])

text \<open>
  C8. Each of \<open>register\<close>, \<open>login\<close> and \<open>resetPassword\<close> is all-or-nothing on
  the user table: whenever it throws (every exception of the model is one of Conflict,
  Unauthorized, NotFound, BadRequest), the rows are exactly those before the call and the
  log holds no further \<open>create\<close> or \<open>save\<close>.
\<close>

theorem credential_operations_atomic:
  "(\<forall>e. fst (register env salt email name username password r) = Inl e \<longrightarrow>
        user_rows (snd (register env salt email name username password r)) = user_rows r
        \<and> filter is_write (repo_calls (snd (register env salt email name username password r)))
            = filter is_write (repo_calls r))
   \<and> (\<forall>e. fst (login env email password r) = Inl e \<longrightarrow>
        user_rows (snd (login env email password r)) = user_rows r
        \<and> filter is_write (repo_calls (snd (login env email password r)))
            = filter is_write (repo_calls r))
   \<and> (\<forall>e. fst (resetPassword env salt email oldPassword newPassword r) = Inl e \<longrightarrow>
        user_rows (snd (resetPassword env salt email oldPassword newPassword r)) = user_rows r
        \<and> filter is_write (repo_calls (snd (resetPassword env salt email oldPassword newPassword r)))
            = filter is_write (repo_calls r))"
proof (intro conjI allI impI)
  fix e
  assume "fst (register env salt email name username password r) = Inl e"
  then show "user_rows (snd (register env salt email name username password r)) = user_rows r"
    and "filter is_write (repo_calls (snd (register env salt email name username password r)))
            = filter is_write (repo_calls r)"
    by (simp_all add: register_failure_atomic)
next
  show "user_rows (snd (login env email password r)) = user_rows r"
    and "filter is_write (repo_calls (snd (login env email password r))) = filter is_write (repo_calls r)"
    by (simp_all add: login_atomic)
next
  fix e
  assume "fst (resetPassword env salt email oldPassword newPassword r) = Inl e"
  then show "user_rows (snd (resetPassword env salt email oldPassword newPassword r)) = user_rows r"
    and "filter is_write (repo_calls (snd (resetPassword env salt email oldPassword newPassword r)))
            = filter is_write (repo_calls r)"
    by (simp_all add: reset_failure_atomic)
qed

theorem credential_operations_atomic_witness:
  "fst (register demo_env ''s2'' ''a@x.com'' ''B'' ''b2'' ''secret2'' demo_repo)
     = Inl (ConflictException ''User already exists with this email'')
   \<and> user_rows (snd (register demo_env ''s2'' ''a@x.com'' ''B'' ''b2'' ''secret2'' demo_repo))
       = user_rows demo_repo
   \<and> filter is_write (repo_calls (snd (register demo_env ''s2'' ''a@x.com'' ''B'' ''b2'' ''secret2'' demo_repo)))
       = filter is_write (repo_calls demo_repo)
   \<and> fst (login demo_env ''a@x.com'' ''wrong'' demo_repo) = Inl (UnauthorizedException ''Invalid Password'')
   \<and> user_rows (snd (login demo_env ''a@x.com'' ''wrong'' demo_repo)) = user_rows demo_repo
   \<and> filter is_write (repo_calls (snd (login demo_env ''a@x.com'' ''wrong'' demo_repo)))
       = filter is_write (repo_calls demo_repo)
   \<and> fst (resetPassword demo_env ''s2'' ''a@x.com'' ''secret1'' (Some ''12345'') demo_repo)
       = Inl (BadRequestException ''New password must be at least 6 characters long'')
   \<and> user_rows (snd (resetPassword demo_env ''s2'' ''a@x.com'' ''secret1'' (Some ''12345'') demo_repo))
       = user_rows demo_repo
   \<and> filter is_write
        (repo_calls (snd (resetPassword demo_env ''s2'' ''a@x.com'' ''secret1'' (Some ''12345'') demo_repo)))
       = filter is_write (repo_calls demo_repo)"
proof -
  have h1: "fst (register demo_env ''s2'' ''a@x.com'' ''B'' ''b2'' ''secret2'' demo_repo)
     = Inl (ConflictException ''User already exists with this email'')"
    by (simp add: register_email_taken [OF demo_emails(1)])
  have h2: "fst (login demo_env ''a@x.com'' ''wrong'' demo_repo) = Inl (UnauthorizedException ''Invalid Password'')"
    using demo_compare_wrong by (simp add: login_found [OF demo_find_a])
  have h3: "fst (resetPassword demo_env ''s2'' ''a@x.com'' ''secret1'' (Some ''12345'') demo_repo)
       = Inl (BadRequestException ''New password must be at least 6 characters long'')"
    by (simp add: reset_new_rejected [OF demo_find_a demo_compare_ok short_rejected])
  note a1 = credential_operations_atomic [THEN conjunct1, THEN spec, THEN mp, OF h1]
  note a2 = credential_operations_atomic [THEN conjunct2, THEN conjunct1, THEN spec, THEN mp, OF h2]
  note a3 = credential_operations_atomic [THEN conjunct2, THEN conjunct2, THEN spec, THEN mp, OF h3]
  show ?thesis
    by (intro conjI h1 h2 h3 a1 [THEN conjunct1] a1 [THEN conjunct2]
          a2 [THEN conjunct1] a2 [THEN conjunct2] a3 [THEN conjunct1] a3 [THEN conjunct2])
qed

subsection \<open>Login after a password reset\<close>

lemma reset_then_find:
  assumes f: "find (\<lambda>u. user_email u = email) (user_rows r) = Some u"
    and c: "bcrypt_compare env oldPassword (user_password u)"
    and p: "\<not> newPassword_rejected (Some p)"
    and i: "user_id u \<noteq> None"
  shows "find (\<lambda>u. user_email u = email)
           (user_rows (snd (resetPassword env salt email oldPassword (Some p) r)))
         = Some (u\<lparr>user_password := bcrypt_hash env p 10 salt\<rparr>)"
proof -
  let ?u' = "u\<lparr>user_password := bcrypt_hash env p 10 salt\<rparr>"
  let ?r1 = "r\<lparr>repo_calls := repo_calls r @ [FindOne (WhereEmail email)]\<rparr>"
  from i obtain k where k: "user_id u = Some k" by blast
  from f have mem: "u \<in> set (user_rows ?r1)" and em: "user_email u = email"
    using find_Some_mem [of "\<lambda>u. user_email u = email" "user_rows r" u] by simp_all
  from k have k': "user_id ?u' = Some k" by simp
  have rows: "user_rows (snd (userRepo_save env ?u' ?r1))
                = map (\<lambda>x. if user_id x = Some k then ?u' else x) (user_rows r)"
    using save_existing_rows [OF mem k k', of env] by simp
  have "find (\<lambda>u. user_email u = email) (map (\<lambda>x. if user_id x = Some k then ?u' else x) (user_rows r))
          = Some ?u'"
    using f em k by (intro find_map_replace) simp_all
  with rows show ?thesis
    by (simp add: reset_accepted [OF f c p])
qed

text \<open>
  C5, as amended. After a successful \<open>resetPassword(email, oldPassword, newPassword)\<close>
  on a table whose rows all have a primary key, with \<open>oldPassword \<noteq> newPassword\<close> and
  with \<^verbatim>\<open>bcrypt.compare\<close> accepting the new password and rejecting the old one against
  the hash just stored, \<open>login(email, newPassword)\<close> succeeds and
  \<open>login(email, oldPassword)\<close> fails with \<open>Unauthorized("Invalid Password")\<close>.
\<close>

theorem reset_then_login:
  assumes ok: "fst (resetPassword env salt email oldPassword (Some newPassword) r) = Inr res"
    and ids: "\<forall>u \<in> set (user_rows r). user_id u \<noteq> None"
    and new_ok: "bcrypt_compare env newPassword (bcrypt_hash env newPassword 10 salt)"
    and differ: "oldPassword \<noteq> newPassword"
    and old_ko: "\<not> bcrypt_compare env oldPassword (bcrypt_hash env newPassword 10 salt)"
  shows "(\<exists>out. fst (login env email newPassword
                     (snd (resetPassword env salt email oldPassword (Some newPassword) r))) = Inr out)
         \<and> fst (login env email oldPassword
                  (snd (resetPassword env salt email oldPassword (Some newPassword) r)))
             = Inl (UnauthorizedException ''Invalid Password'')"
proof -
  from ok obtain u where f: "find (\<lambda>u. user_email u = email) (user_rows r) = Some u"
    and c: "bcrypt_compare env oldPassword (user_password u)"
    and p: "\<not> newPassword_rejected (Some newPassword)"
    by (elim reset_success_cases) simp
  from f ids have i: "user_id u \<noteq> None"
    using find_Some_mem [of "\<lambda>u. user_email u = email" "user_rows r" u] by blast
  note found = reset_then_find [OF f c p i, of salt]
  from new_ok have "\<exists>out. fst (login env email newPassword
                     (snd (resetPassword env salt email oldPassword (Some newPassword) r))) = Inr out"
    by (simp add: login_found [OF found])
  moreover from old_ko have "fst (login env email oldPassword
                  (snd (resetPassword env salt email oldPassword (Some newPassword) r)))
             = Inl (UnauthorizedException ''Invalid Password'')"
    by (simp add: login_found [OF found])
  ultimately show ?thesis by (rule conjI)
qed

theorem reset_then_login_witness:
  "fst (resetPassword demo_env ''s2'' ''a@x.com'' ''secret1'' (Some ''secret2'') demo_repo)
     = Inr \<lparr>reset_message = ''Password changed successfully!''\<rparr>
   \<and> bcrypt_compare demo_env ''secret2'' (bcrypt_hash demo_env ''secret2'' 10 ''s2'')
   \<and> ''secret1'' \<noteq> ''secret2''
   \<and> \<not> bcrypt_compare demo_env ''secret1'' (bcrypt_hash demo_env ''secret2'' 10 ''s2'')
   \<and> (\<exists>out. fst (login demo_env ''a@x.com'' ''secret2''
         (snd (resetPassword demo_env ''s2'' ''a@x.com'' ''secret1'' (Some ''secret2'') demo_repo))) = Inr out)
   \<and> fst (login demo_env ''a@x.com'' ''secret1''
         (snd (resetPassword demo_env ''s2'' ''a@x.com'' ''secret1'' (Some ''secret2'') demo_repo)))
       = Inl (UnauthorizedException ''Invalid Password'')"
proof -
  have d: "''secret1'' \<noteq> ''secret2''"
    by simp
  note th = reset_then_login [OF demo_reset_ok(1) demo_ids demo_compare_new(1) d demo_compare_new(2)]
  show ?thesis
    by (intro conjI demo_reset_ok(1) demo_compare_new(1) d demo_compare_new(2)
          th [THEN conjunct1] th [THEN conjunct2])
qed

text \<open>
  The service does not compare the two passwords: a reset from \<^verbatim>\<open>"secret1"\<close> to
  \<^verbatim>\<open>"secret1"\<close> succeeds, and the login with the old password succeeds after it.
\<close>

theorem reset_same_password_counterexample:
  "fst (resetPassword demo_env ''s2'' ''a@x.com'' ''secret1'' (Some ''secret1'') demo_repo)
     = Inr \<lparr>reset_message = ''Password changed successfully!''\<rparr>
   \<and> fst (login demo_env ''a@x.com'' ''secret1''
         (snd (resetPassword demo_env ''s2'' ''a@x.com'' ''secret1'' (Some ''secret1'') demo_repo)))
       = Inr \<lparr>login_message = ''Login successful'', login_name = ''A'',
              login_accessToken = ''jwt:1:a1''\<rparr>"
proof -
  note found = reset_then_find [OF demo_find_a demo_compare_ok secret_accepted(1) demo_user_has_id, of "''s2''"]
  have cmp: "bcrypt_compare demo_env ''secret1''
               (user_password (demo_user\<lparr>user_password := bcrypt_hash demo_env ''secret1'' 10 ''s2''\<rparr>))"
    using demo_compare_new(3) by simp
  have tok: "jwt_sign demo_env
               \<lparr>sub = user_id (demo_user\<lparr>user_password := bcrypt_hash demo_env ''secret1'' 10 ''s2''\<rparr>),
                payload_username = user_username (demo_user\<lparr>user_password := bcrypt_hash demo_env ''secret1'' 10 ''s2''\<rparr>)\<rparr>
             = ''jwt:1:a1''"
    by (simp add: demo_env_def demo_user_def)
  have nm: "user_name (demo_user\<lparr>user_password := bcrypt_hash demo_env ''secret1'' 10 ''s2''\<rparr>) = ''A''"
    by (simp add: demo_user_def)
  have "fst (login demo_env ''a@x.com'' ''secret1''
         (snd (resetPassword demo_env ''s2'' ''a@x.com'' ''secret1'' (Some ''secret1'') demo_repo)))
       = Inr \<lparr>login_message = ''Login successful'', login_name = ''A'',
              login_accessToken = ''jwt:1:a1''\<rparr>"
    unfolding login_found [OF found] using cmp tok nm by simp
  with demo_reset_ok(2) show ?thesis by (rule conjI)
qed

text \<open>
  The same holds for every table and every password: when the old and the new password
  are equal and the reset succeeds, the login with that password succeeds afterwards
  (bcrypt accepting the password against its own hash).
\<close>

lemma reset_same_password_then_login:
  assumes ok: "fst (resetPassword env salt email p (Some p) r) = Inr res"
    and ids: "\<forall>u \<in> set (user_rows r). user_id u \<noteq> None"
    and self: "bcrypt_compare env p (bcrypt_hash env p 10 salt)"
  shows "\<exists>out. fst (login env email p (snd (resetPassword env salt email p (Some p) r))) = Inr out"
proof -
  from ok obtain u where f: "find (\<lambda>u. user_email u = email) (user_rows r) = Some u"
    and c: "bcrypt_compare env p (user_password u)"
    and n: "\<not> newPassword_rejected (Some p)"
    by (elim reset_success_cases) simp
  from f ids have i: "user_id u \<noteq> None"
    using find_Some_mem [of "\<lambda>u. user_email u = email" "user_rows r" u] by blast
  note found = reset_then_find [OF f c n i, of salt]
  from self show ?thesis
    by (simp add: login_found [OF found])
qed

section \<open>Properties of TasksService\<close>

lemma deleteTask_empty_id:
  "deleteTask [] tasks =
     (Inl (TypeORMError ''Empty criteria(s) are not allowed for the delete method.''), tasks)"
  by (simp add: deleteTask_def tasksRepo_delete_def)

lemma deleteTask_nonempty_id:
  "i \<noteq> [] \<Longrightarrow>
     deleteTask i tasks = (Inr ''Task Deleted Successfully!'', filter (\<lambda>t. task_id t \<noteq> i) tasks)"
  by (simp add: deleteTask_def tasksRepo_delete_def)

lemma delete_absent_id:
  assumes "i \<noteq> []" and "i \<notin> task_id ` set tasks"
  shows "tasksRepo_delete i tasks = (Inr \<lparr>affected = 0\<rparr>, tasks)"
proof -
  from assms(2) have "\<forall>t \<in> set tasks. task_id t \<noteq> i"
    by auto
  then have "filter (\<lambda>t. task_id t = i) tasks = []" and "filter (\<lambda>t. task_id t \<noteq> i) tasks = tasks"
    by (simp_all add: filter_empty_conv filter_id_conv)
  with assms(1) show ?thesis
    by (simp add: tasksRepo_delete_def)
qed

text \<open>
  C9, as amended. For every non-empty id, \<open>deleteTask\<close> returns the message
  \<^verbatim>\<open>"Task Deleted Successfully!"\<close>; the result of the store's delete is not inspected:
  for a non-empty id that matches no stored task zero rows are affected, the table is
  unchanged, and the message is the same. No not-found error is ever reported: the only
  failure of \<open>deleteTask\<close> is at the empty id, where the store's rejection is passed
  on and the table is unchanged.
\<close>

theorem deleteTask_message_for_nonempty_id:
  "(i \<noteq> [] \<longrightarrow> fst (deleteTask i tasks) = Inr ''Task Deleted Successfully!'')
   \<and> (i \<noteq> [] \<and> i \<notin> task_id ` set tasks \<longrightarrow>
        fst (tasksRepo_delete i tasks) = Inr \<lparr>affected = 0\<rparr>
        \<and> deleteTask i tasks = (Inr ''Task Deleted Successfully!'', tasks))
   \<and> (\<forall>e. fst (deleteTask i tasks) = Inl e \<longrightarrow> i = [] \<and> snd (deleteTask i tasks) = tasks)"
proof (intro conjI allI impI)
  assume "i \<noteq> []"
  then show "fst (deleteTask i tasks) = Inr ''Task Deleted Successfully!''"
    by (simp add: deleteTask_nonempty_id)
next
  assume a: "i \<noteq> [] \<and> i \<notin> task_id ` set tasks"
  then show "fst (tasksRepo_delete i tasks) = Inr \<lparr>affected = 0\<rparr>"
    by (simp add: delete_absent_id)
  from a have "tasksRepo_delete i tasks = (Inr \<lparr>affected = 0\<rparr>, tasks)"
    by (simp add: delete_absent_id)
  then show "deleteTask i tasks = (Inr ''Task Deleted Successfully!'', tasks)"
    by (simp add: deleteTask_def)
next
  fix e
  assume e: "fst (deleteTask i tasks) = Inl e"
  show "i = []"
  proof (rule ccontr)
    assume "i \<noteq> []"
    with e show False by (simp add: deleteTask_nonempty_id)
  qed
  then show "snd (deleteTask i tasks) = tasks"
    by (simp add: deleteTask_empty_id)
qed

lemma demo_absent_id:
  "''non-existent'' \<noteq> [] \<and> ''non-existent'' \<notin> task_id ` set [demo_task]"
  by (simp add: demo_task_def)

theorem deleteTask_message_for_nonempty_id_witness:
  "''non-existent'' \<noteq> []
   \<and> ''non-existent'' \<notin> task_id ` set [demo_task]
   \<and> fst (tasksRepo_delete ''non-existent'' [demo_task]) = Inr \<lparr>affected = 0\<rparr>
   \<and> deleteTask ''non-existent'' [demo_task] = (Inr ''Task Deleted Successfully!'', [demo_task])
   \<and> ''1'' \<noteq> []
   \<and> fst (deleteTask ''1'' [demo_task]) = Inr ''Task Deleted Successfully!''"
proof -
  have one: "''1'' \<noteq> []"
    by simp
  note th = deleteTask_message_for_nonempty_id [where tasks = "[demo_task]"]
  note c1 = th [where i = "''non-existent''", THEN conjunct2, THEN conjunct1, THEN mp, OF demo_absent_id]
  note c2 = th [where i = "''1''", THEN conjunct1, THEN mp, OF one]
  show ?thesis
    by (intro conjI demo_absent_id [THEN conjunct1] demo_absent_id [THEN conjunct2]
          c1 [THEN conjunct1] c1 [THEN conjunct2] one c2)
qed

text \<open>
  At the empty id the store's \<^verbatim>\<open>delete\<close> rejects and \<open>deleteTask\<close> does not
  return the message.
\<close>

theorem deleteTask_empty_id_counterexample:
  "fst (deleteTask '''' [demo_task])
     = Inl (TypeORMError ''Empty criteria(s) are not allowed for the delete method.'')
   \<and> snd (deleteTask '''' [demo_task]) = [demo_task]"
  by (simp add: deleteTask_empty_id)

section \<open>Properties of the access to the task routes\<close>

lemma AuthMiddleware_use_forwards: "AuthMiddleware_use req next = next req"
  by (simp add: AuthMiddleware_use_def)

lemma AuthLoggingInterceptor_forwards: "AuthLoggingInterceptor_intercept req next = next req"
  by (simp add: AuthLoggingInterceptor_intercept_def)

lemma tasks_route_eq:
  "tasks_route mounted jwt_verify pipes handler req st =
     (case JwtAuthGuard jwt_verify req of
        Inl e \<Rightarrow> (Inl e, st)
      | Inr rq' \<Rightarrow>
          (case pipes (req_body rq') of
             Inl e \<Rightarrow> (Inl e, st)
           | Inr body \<Rightarrow> (Inr (fst (handler (rq'\<lparr>req_body := body\<rparr>) st)),
                          snd (handler (rq'\<lparr>req_body := body\<rparr>) st))))"
  by (simp add: tasks_route_def AuthMiddleware_use_forwards AuthLoggingInterceptor_forwards
        Let_def split_beta split: sum.splits)

lemma bearer_token_missing: "bearer_token None = None"
  by (simp add: bearer_token_def)

lemma bearer_token_malformed:
  "take 7 h \<noteq> ''Bearer '' \<or> drop 7 h = [] \<Longrightarrow> bearer_token (Some h) = None"
  by (auto simp: bearer_token_def)

lemma bearer_token_Some_iff:
  "bearer_token header = Some token \<longleftrightarrow> header = Some (''Bearer '' @ token) \<and> token \<noteq> []"
proof (cases header)
  case None
  then show ?thesis by (simp add: bearer_token_def)
next
  case (Some h)
  have "h = ''Bearer '' @ token" if "take 7 h = ''Bearer ''" "drop 7 h = token"
    using that append_take_drop_id [of 7 h] by simp
  with Some show ?thesis
    by (auto simp: bearer_token_def)
qed

lemma guard_rejects_no_token:
  "bearer_token (req_authorization req) = None \<Longrightarrow>
     JwtAuthGuard jwt_verify req = Inl (UnauthorizedException ''Unauthorized'')"
  by (simp add: JwtAuthGuard_def)

lemma guard_rejects_bad_token:
  "bearer_token (req_authorization req) = Some token \<Longrightarrow> (\<forall>claims. jwt_verify token \<noteq> TokenValid claims) \<Longrightarrow>
     JwtAuthGuard jwt_verify req = Inl (UnauthorizedException ''Unauthorized'')"
  by (cases "jwt_verify token") (simp_all add: JwtAuthGuard_def)

lemma guard_accepts:
  "bearer_token (req_authorization req) = Some token \<Longrightarrow> jwt_verify token = TokenValid claims \<Longrightarrow>
     JwtAuthGuard jwt_verify req = Inr (req\<lparr>req_user := Some claims\<rparr>)"
  by (simp add: JwtAuthGuard_def)

lemma route_guard_rejects:
  "JwtAuthGuard jwt_verify req = Inl e \<Longrightarrow>
     tasks_route mounted jwt_verify pipes handler req st = (Inl e, st)"
  by (simp add: tasks_route_eq)

lemma route_valid_token:
  assumes "req_authorization req = Some (''Bearer '' @ token)" and "token \<noteq> []"
    and "jwt_verify token = TokenValid claims"
  shows "tasks_route mounted jwt_verify pipes handler req st =
           (case pipes (req_body req) of
              Inl e \<Rightarrow> (Inl e, st)
            | Inr body \<Rightarrow>
                (Inr (fst (handler (req\<lparr>req_user := Some claims, req_body := body\<rparr>) st)),
                 snd (handler (req\<lparr>req_user := Some claims, req_body := body\<rparr>) st)))"
proof -
  from assms(1,2) have "bearer_token (req_authorization req) = Some token"
    by (simp add: bearer_token_Some_iff)
  with assms(3) have "JwtAuthGuard jwt_verify req = Inr (req\<lparr>req_user := Some claims\<rparr>)"
    by (simp add: guard_accepts)
  then show ?thesis
    by (simp add: tasks_route_eq)
qed

lemma pipes_reject_incomplete:
  "updateTask_pipes demo_body_incomplete = Inl (BadRequestException ''completed must be a boolean value'')"
  by (simp add: updateTask_pipes_def ValidationPipe_def updateTaskDto_def demo_body_incomplete_def
        own_keys_def property_violations_def property_def)

lemma pipes_accept_ok: "updateTask_pipes demo_body_ok = Inr demo_body_ok"
  by (simp add: updateTask_pipes_def ValidationPipe_def updateTaskDto_def demo_body_ok_def
        own_keys_def property_violations_def property_def strip_unknown_def)

lemma demo_update:
  "TasksController_updateTask ''1'' (rq\<lparr>req_body := demo_body_ok\<rparr>) [demo_task]
     = (ReplyTask (demo_task\<lparr>title := ''x'', completed := True\<rparr>),
        [demo_task\<lparr>title := ''x'', completed := True\<rparr>])"
  by (simp add: TasksController_updateTask_def updateTask_def getTaskById_def tasksRepo_findOne_def
        tasksRepo_save_def nullish_coalesce_def string_property_def boolean_property_def property_def
        demo_body_ok_def demo_task_def Let_def)

lemma demo_delete:
  "TasksController_deleteTask ''1'' rq [demo_task] = (Inr ''Task Deleted Successfully!'', [])"
  by (simp add: TasksController_deleteTask_def deleteTask_def tasksRepo_delete_def demo_task_def)

lemma demo_tokens:
  "demo_verify ''forged'' = SignatureInvalid"
  "demo_verify ''old'' = TokenExpired"
  "demo_verify ''good'' = TokenValid \<lparr>sub = Some ''1'', payload_username = ''ayman''\<rparr>"
  by (simp_all add: demo_verify_def)

lemma demo_good_request:
  "req_authorization (demo_request (Some ''Bearer good'') body) = Some (''Bearer '' @ ''good'')"
  "req_body (demo_request header body) = body"
  by (simp_all add: demo_request_def)

text \<open>
  C1, as amended. On every route of the tasks controller, a request whose Authorization
  header is missing or malformed, or whose bearer token is malformed, fails signature
  verification or has expired, is answered with \<open>Unauthorized\<close> and the state of the
  task service is untouched, whatever the pipes and the handler are: neither is run. A
  request with a valid, unexpired bearer token passes the guard; it reaches the handler,
  with the decoded claims attached, when the pipes of the route accept its body, and is
  answered with the pipes' exception, the handler not run, when they reject it. This
  holds with and without \<open>AuthMiddleware\<close> in front of the guard, since the middleware
  forwards every request.
\<close>

theorem guard_gates_task_routes:
  "(req_authorization req = None \<longrightarrow>
      (\<exists>m. tasks_route mounted jwt_verify pipes handler req st = (Inl (UnauthorizedException m), st)))
   \<and> (\<forall>h. req_authorization req = Some h \<and> (take 7 h \<noteq> ''Bearer '' \<or> drop 7 h = []) \<longrightarrow>
      (\<exists>m. tasks_route mounted jwt_verify pipes handler req st = (Inl (UnauthorizedException m), st)))
   \<and> (\<forall>token. req_authorization req = Some (''Bearer '' @ token)
          \<and> (jwt_verify token = TokenMalformed \<or> jwt_verify token = SignatureInvalid
              \<or> jwt_verify token = TokenExpired) \<longrightarrow>
      (\<exists>m. tasks_route mounted jwt_verify pipes handler req st = (Inl (UnauthorizedException m), st)))
   \<and> (\<forall>token claims body. req_authorization req = Some (''Bearer '' @ token) \<and> token \<noteq> []
          \<and> jwt_verify token = TokenValid claims \<and> pipes (req_body req) = Inr body \<longrightarrow>
      tasks_route mounted jwt_verify pipes handler req st
        = (Inr (fst (handler (req\<lparr>req_user := Some claims, req_body := body\<rparr>) st)),
           snd (handler (req\<lparr>req_user := Some claims, req_body := body\<rparr>) st)))
   \<and> (\<forall>token claims e. req_authorization req = Some (''Bearer '' @ token) \<and> token \<noteq> []
          \<and> jwt_verify token = TokenValid claims \<and> pipes (req_body req) = Inl e \<longrightarrow>
      tasks_route mounted jwt_verify pipes handler req st = (Inl e, st))"
proof (intro conjI allI impI)
  assume "req_authorization req = None"
  then have "JwtAuthGuard jwt_verify req = Inl (UnauthorizedException ''Unauthorized'')"
    by (simp add: guard_rejects_no_token bearer_token_missing)
  then show "\<exists>m. tasks_route mounted jwt_verify pipes handler req st = (Inl (UnauthorizedException m), st)"
    by (simp add: route_guard_rejects)
next
  fix h
  assume "req_authorization req = Some h \<and> (take 7 h \<noteq> ''Bearer '' \<or> drop 7 h = [])"
  then have "bearer_token (req_authorization req) = None"
    using bearer_token_malformed [of h] by auto
  then have "JwtAuthGuard jwt_verify req = Inl (UnauthorizedException ''Unauthorized'')"
    by (rule guard_rejects_no_token)
  then show "\<exists>m. tasks_route mounted jwt_verify pipes handler req st = (Inl (UnauthorizedException m), st)"
    by (simp add: route_guard_rejects)
next
  fix token
  assume a: "req_authorization req = Some (''Bearer '' @ token)
          \<and> (jwt_verify token = TokenMalformed \<or> jwt_verify token = SignatureInvalid
              \<or> jwt_verify token = TokenExpired)"
  have "JwtAuthGuard jwt_verify req = Inl (UnauthorizedException ''Unauthorized'')"
  proof (cases "token = []")
    case True
    with a have "bearer_token (req_authorization req) = None"
      by (simp add: bearer_token_def)
    then show ?thesis by (rule guard_rejects_no_token)
  next
    case False
    with a have t: "bearer_token (req_authorization req) = Some token"
      by (simp add: bearer_token_Some_iff)
    from a have "\<forall>claims. jwt_verify token \<noteq> TokenValid claims"
      by auto
    with t show ?thesis by (rule guard_rejects_bad_token)
  qed
  then show "\<exists>m. tasks_route mounted jwt_verify pipes handler req st = (Inl (UnauthorizedException m), st)"
    by (simp add: route_guard_rejects)
next
  fix token claims body
  assume "req_authorization req = Some (''Bearer '' @ token) \<and> token \<noteq> []
          \<and> jwt_verify token = TokenValid claims \<and> pipes (req_body req) = Inr body"
  then show "tasks_route mounted jwt_verify pipes handler req st
        = (Inr (fst (handler (req\<lparr>req_user := Some claims, req_body := body\<rparr>) st)),
           snd (handler (req\<lparr>req_user := Some claims, req_body := body\<rparr>) st))"
    by (simp add: route_valid_token)
next
  fix token claims e
  assume "req_authorization req = Some (''Bearer '' @ token) \<and> token \<noteq> []
          \<and> jwt_verify token = TokenValid claims \<and> pipes (req_body req) = Inl e"
  then show "tasks_route mounted jwt_verify pipes handler req st = (Inl e, st)"
    by (simp add: route_valid_token)
qed


theorem guard_gates_task_routes_witness:
  "(\<exists>m. tasks_route True demo_verify updateTask_pipes (TasksController_updateTask ''1'')
          (demo_request None demo_body_ok) [demo_task]
        = (Inl (UnauthorizedException m), [demo_task]))
   \<and> (\<exists>m. tasks_route True demo_verify updateTask_pipes (TasksController_updateTask ''1'')
             (demo_request (Some ''Token abc'') demo_body_ok) [demo_task]
          = (Inl (UnauthorizedException m), [demo_task]))
   \<and> demo_verify ''forged'' = SignatureInvalid
   \<and> (\<exists>m. tasks_route True demo_verify updateTask_pipes (TasksController_updateTask ''1'')
             (demo_request (Some ''Bearer forged'') demo_body_ok) [demo_task]
          = (Inl (UnauthorizedException m), [demo_task]))
   \<and> demo_verify ''old'' = TokenExpired
   \<and> (\<exists>m. tasks_route True demo_verify updateTask_pipes (TasksController_updateTask ''1'')
             (demo_request (Some ''Bearer old'') demo_body_ok) [demo_task]
          = (Inl (UnauthorizedException m), [demo_task]))
   \<and> demo_verify ''good'' = TokenValid \<lparr>sub = Some ''1'', payload_username = ''ayman''\<rparr>
   \<and> updateTask_pipes demo_body_ok = Inr demo_body_ok
   \<and> tasks_route True demo_verify updateTask_pipes (TasksController_updateTask ''1'')
        (demo_request (Some ''Bearer good'') demo_body_ok) [demo_task]
       = (Inr (ReplyTask (demo_task\<lparr>title := ''x'', completed := True\<rparr>)),
          [demo_task\<lparr>title := ''x'', completed := True\<rparr>])
   \<and> updateTask_pipes demo_body_incomplete
       = Inl (BadRequestException ''completed must be a boolean value'')
   \<and> tasks_route True demo_verify updateTask_pipes (TasksController_updateTask ''1'')
        (demo_request (Some ''Bearer good'') demo_body_incomplete) [demo_task]
       = (Inl (BadRequestException ''completed must be a boolean value''), [demo_task])
   \<and> tasks_route True demo_verify deleteTask_pipes (TasksController_deleteTask ''1'')
        (demo_request (Some ''Bearer good'') JNull) [demo_task]
       = (Inr (Inr ''Task Deleted Successfully!''), [])"
proof -
  have h0: "req_authorization (demo_request None demo_body_ok) = None"
    by (simp add: demo_request_def)
  have h1: "req_authorization (demo_request (Some ''Token abc'') demo_body_ok) = Some ''Token abc''
            \<and> (take 7 ''Token abc'' \<noteq> ''Bearer '' \<or> drop 7 ''Token abc'' = [])"
    by (simp add: demo_request_def)
  have h2: "req_authorization (demo_request (Some ''Bearer forged'') demo_body_ok) = Some (''Bearer '' @ ''forged'')
            \<and> (demo_verify ''forged'' = TokenMalformed \<or> demo_verify ''forged'' = SignatureInvalid
                \<or> demo_verify ''forged'' = TokenExpired)"
    using demo_tokens(1) by (simp add: demo_request_def)
  have h3: "req_authorization (demo_request (Some ''Bearer old'') demo_body_ok) = Some (''Bearer '' @ ''old'')
            \<and> (demo_verify ''old'' = TokenMalformed \<or> demo_verify ''old'' = SignatureInvalid
                \<or> demo_verify ''old'' = TokenExpired)"
    using demo_tokens(2) by (simp add: demo_request_def)
  have ne: "''good'' \<noteq> []"
    by simp
  have h4: "req_authorization (demo_request (Some ''Bearer good'') demo_body_ok) = Some (''Bearer '' @ ''good'')
            \<and> ''good'' \<noteq> []
            \<and> demo_verify ''good'' = TokenValid \<lparr>sub = Some ''1'', payload_username = ''ayman''\<rparr>
            \<and> updateTask_pipes (req_body (demo_request (Some ''Bearer good'') demo_body_ok)) = Inr demo_body_ok"
    by (intro conjI demo_good_request(1) ne demo_tokens(3))
       (simp add: demo_good_request(2) pipes_accept_ok)
  have h5: "req_authorization (demo_request (Some ''Bearer good'') demo_body_incomplete) = Some (''Bearer '' @ ''good'')
            \<and> ''good'' \<noteq> []
            \<and> demo_verify ''good'' = TokenValid \<lparr>sub = Some ''1'', payload_username = ''ayman''\<rparr>
            \<and> updateTask_pipes (req_body (demo_request (Some ''Bearer good'') demo_body_incomplete))
                = Inl (BadRequestException ''completed must be a boolean value'')"
    by (intro conjI demo_good_request(1) ne demo_tokens(3))
       (simp add: demo_good_request(2) pipes_reject_incomplete)
  have h6: "req_authorization (demo_request (Some ''Bearer good'') JNull) = Some (''Bearer '' @ ''good'')
            \<and> ''good'' \<noteq> []
            \<and> demo_verify ''good'' = TokenValid \<lparr>sub = Some ''1'', payload_username = ''ayman''\<rparr>
            \<and> deleteTask_pipes (req_body (demo_request (Some ''Bearer good'') JNull)) = Inr JNull"
    by (intro conjI demo_good_request(1) ne demo_tokens(3))
       (simp add: demo_good_request(2) deleteTask_pipes_def)
  note up = guard_gates_task_routes [where mounted = True and jwt_verify = demo_verify
      and pipes = updateTask_pipes and handler = "TasksController_updateTask ''1''"
      and st = "[demo_task]"]
  note del = guard_gates_task_routes [where mounted = True and jwt_verify = demo_verify
      and pipes = deleteTask_pipes and handler = "TasksController_deleteTask ''1''"
      and st = "[demo_task]"]
  note c0 = up [THEN conjunct1, THEN mp, OF h0]
  note c1 = up [THEN conjunct2, THEN conjunct1, THEN spec, THEN mp, OF h1]
  note c2 = up [THEN conjunct2, THEN conjunct2, THEN conjunct1, THEN spec, THEN mp, OF h2]
  note c3 = up [THEN conjunct2, THEN conjunct2, THEN conjunct1, THEN spec, THEN mp, OF h3]
  note c4 = up [THEN conjunct2, THEN conjunct2, THEN conjunct2, THEN conjunct1,
      THEN spec, THEN spec, THEN spec, THEN mp, OF h4, unfolded demo_update fst_conv snd_conv]
  note c5 = up [THEN conjunct2, THEN conjunct2, THEN conjunct2, THEN conjunct2,
      THEN spec, THEN spec, THEN spec, THEN mp, OF h5]
  note c6 = del [THEN conjunct2, THEN conjunct2, THEN conjunct2, THEN conjunct1,
      THEN spec, THEN spec, THEN spec, THEN mp, OF h6, unfolded demo_delete fst_conv snd_conv]
  show ?thesis
    by (intro conjI c0 c1 demo_tokens c2 c3 pipes_accept_ok c4 pipes_reject_incomplete c5 c6)
qed

text \<open>
  A valid token does not suffice to reach the handler: \<^verbatim>\<open>PUT /tasks/1/update\<close> with
  a valid token and the body \<^verbatim>\<open>{"title": "x"}\<close> is answered by the validation
  pipe, and the task is not updated.
\<close>

theorem valid_token_invalid_body_counterexample:
  "demo_verify ''good'' = TokenValid \<lparr>sub = Some ''1'', payload_username = ''ayman''\<rparr>
   \<and> tasks_route True demo_verify updateTask_pipes (TasksController_updateTask ''1'')
        \<lparr>req_authorization = Some ''Bearer good'',
         req_body = JObject [(''title'', JString ''x'')], req_user = None\<rparr> [demo_task]
       = (Inl (BadRequestException ''completed must be a boolean value''), [demo_task])"
proof -
  have rq: "req_authorization \<lparr>req_authorization = Some ''Bearer good'',
         req_body = JObject [(''title'', JString ''x'')], req_user = None\<rparr> = Some (''Bearer '' @ ''good'')"
    by simp
  have ne: "''good'' \<noteq> []"
    by simp
  have p: "updateTask_pipes (JObject [(''title'', JString ''x'')])
             = Inl (BadRequestException ''completed must be a boolean value'')"
    using pipes_reject_incomplete by (simp add: demo_body_incomplete_def)
  have "tasks_route True demo_verify updateTask_pipes (TasksController_updateTask ''1'')
        \<lparr>req_authorization = Some ''Bearer good'',
         req_body = JObject [(''title'', JString ''x'')], req_user = None\<rparr> [demo_task]
       = (Inl (BadRequestException ''completed must be a boolean value''), [demo_task])"
    unfolding route_valid_token [where jwt_verify = demo_verify, OF rq ne demo_tokens(3)] using p by simp
  with demo_tokens(3) show ?thesis by (rule conjI)
qed

end
